theory Spec2Isabelle
  imports Main "HOL-Library.Sublist"
begin

section \<open>The ngormgen generator: data model\<close>

text \<open>
  The development follows \<^verbatim>\<open>cmd/ngormgen/nebula.go\<close>. Strings are byte strings
  (\<open>char list\<close>). The generator writes its output through \<^verbatim>\<open>fmt.Fprintf\<close>, whose
  first argument is a format: the buffer is therefore kept as the sequence of
  \<^verbatim>\<open>Fprintf\<close> calls (format and operands) made on it, and the bytes are obtained by
  rendering every call with the library's formatter (see \<open>Bytes\<close> below).
\<close>

abbreviation TAB :: string where "TAB \<equiv> [CHR 0x09]"
abbreviation BSL :: string where "BSL \<equiv> [CHR 0x5C]"
abbreviation SQ :: string where "SQ \<equiv> [CHR 0x27]"
abbreviation NL :: string where "NL \<equiv> [CHR 0x0A]"

definition POTYPE_TAG :: string where "POTYPE_TAG = ''Tag''"
definition POTYPE_EDGE :: string where "POTYPE_EDGE = ''Edge''"

text \<open>\<^verbatim>\<open>type Field struct\<close>.\<close>

record Field =
  name :: string
  nickname :: string
  typeStr :: string
  comment :: string
  isIndex :: bool
  otherIndexFields :: string

text \<open>\<^verbatim>\<open>type Struct struct\<close>; its \<^verbatim>\<open>name\<close>, \<^verbatim>\<open>nickname\<close> and \<^verbatim>\<open>fields\<close> are
  called \<open>struct_name\<close>, \<open>struct_nickname\<close> and \<open>struct_fields\<close> here: the short names
  are taken by \<open>Field\<close> and by the record package.\<close>

record Struct =
  struct_name :: string
  struct_nickname :: string
  struct_fields :: "Field list"
  isTag :: bool
  isEdge :: bool

definition IDFIELD :: Field where
  "IDFIELD = \<lparr>name = ''Id'', nickname = ''id'', typeStr = ''int64'', comment = '''',
     isIndex = False, otherIndexFields = ''''\<rparr>"

subsection \<open>The syntax trees the generator reads\<close>

text \<open>
  The part of \<^verbatim>\<open>go/ast\<close> that \<^verbatim>\<open>genStruct\<close> looks at. An expression is an identifier,
  a selector \<^verbatim>\<open>X.Sel\<close>, a pointer \<^verbatim>\<open>*X\<close>, or anything else.
\<close>

datatype expr = Ident string | SelectorExpr expr string | StarExpr expr | OtherExpr

text \<open>
  \<^verbatim>\<open>ast.Field\<close>. \<open>Tag\<close> is \<open>None\<close> when the field has no tag; otherwise it holds the
  key/value pairs that \<^verbatim>\<open>reflect.StructTag\<close> reads from the tag literal stripped of its
  back quotes, in order. \<open>Comment\<close> is the text of the line comment after
  \<^verbatim>\<open>strings.TrimSpace\<close> (empty when there is none).
\<close>

record ast_Field =
  Names :: "string list"
  Type :: expr
  Tag :: "(string \<times> string) list option"
  Comment :: string

text \<open>
  The nodes \<^verbatim>\<open>ast.Inspect\<close> visits: a function declaration with its receiver list
  (\<open>None\<close> for a \<^verbatim>\<open>nil\<close> \<^verbatim>\<open>Recv\<close>, which is what a function that is not a method has),
  a type specification with its name and type, or any other node; each with its children
  in the order of the traversal.
\<close>

datatype type_expr = StructType "ast_Field list" | OtherType

datatype node_kind = FuncDecl "expr list option" | TypeSpec string type_expr | OtherNode

datatype node = Node node_kind "node list"

text \<open>\<^verbatim>\<open>ast.File\<close>: the text of each comment group, in order, and the root node.\<close>

record ast_File =
  Comments :: "string list"
  Root :: node

text \<open>
  \<^verbatim>\<open>type File struct\<close>. \<open>file_ast\<close> is its \<^verbatim>\<open>file\<close>; \<open>allowTypeNames\<close> is the map \<^verbatim>\<open>map[string]int\<close>, kept as the
  list of its keys without repetition (\<open>None\<close> is the \<^verbatim>\<open>nil\<close> map); every value stored
  in it is 1.
\<close>

record File =
  file_ast :: ast_File
  allowTypeNames :: "string list option"
  structs :: "Struct list"
  trimPrefix :: string
  lineComment :: bool

text \<open>\<^verbatim>\<open>type Package struct\<close> and \<^verbatim>\<open>type Generator struct\<close>; a call on the buffer
  is a format with its operands.\<close>

type_synonym call = "string \<times> string list"

record Package =
  pkg_name :: string
  files :: "File list"

record Generator =
  buf :: "call list"
  pkg :: Package
  Structs :: "Struct list"
  gtrimPrefix :: string
  glineComment :: bool

section \<open>Library functions\<close>

text \<open>
  \<^verbatim>\<open>strings.ToLower\<close> on ASCII text: each of the letters A to Z is replaced by its
  lower-case letter, every other byte is kept. (Go also maps the letters outside ASCII;
  identifiers are taken to be ASCII.)
\<close>

definition toLower_char :: "char \<Rightarrow> char" where
  "toLower_char c =
     (case map_of (zip ''ABCDEFGHIJKLMNOPQRSTUVWXYZ'' ''abcdefghijklmnopqrstuvwxyz'') c of
        None \<Rightarrow> c
      | Some l \<Rightarrow> l)"

definition ToLower :: "string \<Rightarrow> string" where
  "ToLower s = map toLower_char s"

text \<open>\<^verbatim>\<open>strings.Contains\<close>, \<^verbatim>\<open>strings.Join\<close> and \<^verbatim>\<open>strings.Split\<close> with a one-byte
  separator.\<close>

definition Contains :: "string \<Rightarrow> string \<Rightarrow> bool" where
  "Contains s substr = sublist substr s"

fun Join :: "string list \<Rightarrow> string \<Rightarrow> string" where
  "Join [] sep = []"
| "Join [x] sep = x"
| "Join (x # y # ys) sep = x @ sep @ Join (y # ys) sep"

fun Split :: "string \<Rightarrow> char \<Rightarrow> string list" where
  "Split [] sep = [[]]"
| "Split (c # cs) sep =
     (if c = sep then [] # Split cs sep
      else (case Split cs sep of [] \<Rightarrow> [[c]] | w # ws \<Rightarrow> (c # w) # ws))"

text \<open>\<^verbatim>\<open>reflect.StructTag.Lookup\<close> on the parsed pairs: the value of the first pair with
  the key and \<^verbatim>\<open>true\<close>, or the empty string and \<^verbatim>\<open>false\<close>.\<close>

definition Lookup :: "(string \<times> string) list \<Rightarrow> string \<Rightarrow> string \<times> bool" where
  "Lookup tag key = (case map_of tag key of None \<Rightarrow> ('''', False) | Some v \<Rightarrow> (v, True))"

section \<open>Model extraction\<close>

definition len_map :: "string list option \<Rightarrow> nat" where
  "len_map m = (case m of None \<Rightarrow> 0 | Some ks \<Rightarrow> length ks)"

definition delete_map :: "string list option \<Rightarrow> string \<Rightarrow> string list option" where
  "delete_map m k = (case m of None \<Rightarrow> None | Some ks \<Rightarrow> Some (removeAll k ks))"

definition allowTypeName :: "File \<Rightarrow> string \<Rightarrow> bool" where
  "allowTypeName f nm = (case allowTypeNames f of None \<Rightarrow> True | Some ks \<Rightarrow> nm \<in> set ks)"

text \<open>The \<^verbatim>\<open>Field\<close> built for one name of a field whose type is the identifier \<open>tn\<close>.\<close>

definition genStruct_fi :: "ast_Field \<Rightarrow> string \<Rightarrow> string \<Rightarrow> Field" where
  "genStruct_fi field tn nm =
     (let fi = \<lparr>name = nm, nickname = ToLower nm, typeStr = tn, comment = Comment field,
                isIndex = False, otherIndexFields = ''''\<rparr>
      in case Tag field of
           None \<Rightarrow> fi
         | Some tag \<Rightarrow> fi\<lparr>isIndex := snd (Lookup tag ''idx''),
                          otherIndexFields := fst (Lookup tag ''idx'')\<rparr>)"

definition genStruct_mark :: "Struct \<Rightarrow> string \<Rightarrow> Struct" where
  "genStruct_mark stru sel =
     (if sel = POTYPE_TAG then stru\<lparr>isTag := True\<rparr>
      else if sel = POTYPE_EDGE then stru\<lparr>isEdge := True\<rparr>
      else stru)"

text \<open>The body of the loop over \<^verbatim>\<open>st.Fields.List\<close>.\<close>

definition genStruct_field :: "Struct \<Rightarrow> ast_Field \<Rightarrow> Struct" where
  "genStruct_field stru field =
     (case Type field of
        Ident tn \<Rightarrow> stru\<lparr>struct_fields := struct_fields stru @ map (genStruct_fi field tn) (Names field)\<rparr>
      | SelectorExpr x sel \<Rightarrow> genStruct_mark stru sel
      | StarExpr x \<Rightarrow> (case x of SelectorExpr y sel \<Rightarrow> genStruct_mark stru sel | _ \<Rightarrow> stru)
      | OtherExpr \<Rightarrow> stru)"

definition genStruct_stru :: "string \<Rightarrow> ast_Field list \<Rightarrow> Struct" where
  "genStruct_stru nm fl =
     foldl genStruct_field
       \<lparr>struct_name = nm, struct_nickname = ToLower nm, struct_fields = [], isTag = False,
        isEdge = False\<rparr> fl"

datatype panic = NilPointerDereference | Unsupport string | SliceBoundsOutOfRange

text \<open>
  \<^verbatim>\<open>genStruct\<close> on one node: the file state after the call and the value returned
  (whether the traversal descends into the node), or the panic of reading
  \<^verbatim>\<open>fd.Recv.List\<close> through a \<^verbatim>\<open>nil\<close> receiver list.
\<close>

definition genStruct :: "File \<Rightarrow> node_kind \<Rightarrow> panic + File \<times> bool" where
  "genStruct f nd =
     (case nd of
        FuncDecl None \<Rightarrow> Inl NilPointerDereference
      | FuncDecl (Some l) \<Rightarrow> Inr (f, True)
      | OtherNode \<Rightarrow> Inr (f, True)
      | TypeSpec nm ty \<Rightarrow>
          if \<not> allowTypeName f nm then Inr (f, True)
          else
            let f1 = (case ty of
                        StructType fl \<Rightarrow> f\<lparr>structs := structs f @ [genStruct_stru nm fl]\<rparr>
                      | OtherType \<Rightarrow> f)
            in if len_map (allowTypeNames f1) = 1 then Inr (f1, False)
               else Inr (f1\<lparr>allowTypeNames := delete_map (allowTypeNames f1) nm\<rparr>, True))"

text \<open>\<^verbatim>\<open>ast.Inspect\<close>: depth first, a node before its children, the children only when
  the call on the node returned \<^verbatim>\<open>true\<close>.\<close>

fun Inspect :: "node \<Rightarrow> File \<Rightarrow> panic + File"
  and Inspect_list :: "node list \<Rightarrow> File \<Rightarrow> panic + File" where
  "Inspect (Node k cs) f =
     (case genStruct f k of
        Inl e \<Rightarrow> Inl e
      | Inr (f', descend) \<Rightarrow> if descend then Inspect_list cs f' else Inr f')"
| "Inspect_list [] f = Inr f"
| "Inspect_list (c # cs) f =
     (case Inspect c f of Inl e \<Rightarrow> Inl e | Inr f' \<Rightarrow> Inspect_list cs f')"

text \<open>\<^verbatim>\<open>addPackage\<close>: a file whose first comment group contains the marker is skipped.\<close>

definition generated_file :: "ast_File \<Rightarrow> bool" where
  "generated_file a =
     (length (Comments a) > 0 \<and> Contains (hd (Comments a)) ''Code generated by'')"

definition addPackage_file :: "Generator \<Rightarrow> ast_File \<Rightarrow> Generator" where
  "addPackage_file g a =
     (if generated_file a then g
      else g\<lparr>pkg := (pkg g)\<lparr>files := files (pkg g) @
             [\<lparr>file_ast = a, allowTypeNames = None, structs = [],
               trimPrefix = gtrimPrefix g, lineComment = glineComment g\<rparr>]\<rparr>\<rparr>)"

definition addPackage :: "Generator \<Rightarrow> string \<Rightarrow> ast_File list \<Rightarrow> Generator" where
  "addPackage g nm syntax =
     foldl addPackage_file (g\<lparr>pkg := \<lparr>pkg_name = nm, files = []\<rparr>\<rparr>) syntax"

section \<open>The buffer\<close>

text \<open>
  \<^verbatim>\<open>g.Printf(format)\<close> and \<^verbatim>\<open>g.Printlnf(format)\<close> append one \<^verbatim>\<open>Fprintf\<close> call to the
  buffer; \<open>Printf\<close> and \<open>Printlnf\<close> are those calls, and each emitting method below is the
  list of calls it appends, in order. A method that panics appends nothing that is ever
  read: the process ends there.
\<close>

definition Printf :: "string \<Rightarrow> call" where
  "Printf format = (format, [])"

definition Printlnf :: "string \<Rightarrow> call" where
  "Printlnf format = (format @ NL, [])"

text \<open>Statements run in order; the first panic ends the run.\<close>

fun seqE :: "(panic + 'a list) list \<Rightarrow> panic + 'a list" where
  "seqE [] = Inr []"
| "seqE (x # xs) =
     (case x of
        Inl e \<Rightarrow> Inl e
      | Inr a \<Rightarrow> (case seqE xs of Inl e \<Rightarrow> Inl e | Inr b \<Rightarrow> Inr (a @ b)))"

section \<open>Type codec\<close>

definition toNebulaType :: "Field \<Rightarrow> string" where
  "toNebulaType f = typeStr f"

text \<open>\<^verbatim>\<open>(f *Field) funcBindResult\<close>, called \<open>Field_funcBindResult\<close> since the generator
  has a method of the same name; \<open>pref\<close> is its \<^verbatim>\<open>prefix\<close> and \<open>set_stmt\<close> its \<^verbatim>\<open>set\<close>.\<close>

definition Field_funcBindResult :: "Field \<Rightarrow> string \<Rightarrow> string \<Rightarrow> panic + string" where
  \<open>Field_funcBindResult f struct_nm pref =
     (let set_stmt = (if nickname f = nickname IDFIELD then struct_nm @ ''.SetId(f)''
                 else struct_nm @ ''.'' @ name f @ '' = '' @ typeStr f @ ''(f)'');
          val = (if typeStr f = ''string'' then Inr ''AsString()''
                 else if typeStr f = ''int'' then Inr ''AsInt()''
                 else if typeStr f = ''int64'' then Inr ''AsInt()''
                 else if typeStr f = ''int32'' then Inr ''AsInt()''
                 else if typeStr f = ''int16'' then Inr ''AsInt()''
                 else if typeStr f = ''int8'' then Inr ''AsInt()''
                 else if typeStr f = ''float64'' then Inr ''AsFloat()''
                 else if typeStr f = ''float32'' then Inr ''AsFloat()''
                 else Inl (Unsupport (typeStr f @ ''unsupport'')))
      in case val of
           Inl e \<Rightarrow> Inl e
         | Inr v \<Rightarrow> Inr (NL @
             ''val,err := record.GetValueByColName("'' @ pref @ nickname f @ ''")'' @ NL @
             TAB @ TAB @ TAB @ ''if err != nil {'' @ NL @
             TAB @ TAB @ TAB @ TAB @ ''panic(err)'' @ NL @
             TAB @ TAB @ TAB @ ''}'' @ NL @
             TAB @ TAB @ TAB @ ''f,err := val.'' @ v @ NL @
             TAB @ TAB @ TAB @ ''if err != nil {'' @ NL @
             TAB @ TAB @ TAB @ TAB @ ''panic(err)'' @ NL @
             TAB @ TAB @ TAB @ ''}'' @ NL @ set_stmt))\<close>

definition funcValue :: "Field \<Rightarrow> string \<Rightarrow> panic + string" where
  \<open>funcValue f structName =
     (if typeStr f = ''string'' then
        Inr (''"'' @ BSL @ ''"" + '' @ structName @ ''.'' @ name f @ '' + "'' @ BSL @ ''""'')
      else if typeStr f = ''int'' then
        Inr (''strconv.Itoa('' @ structName @ ''.'' @ name f @ '')'')
      else if typeStr f = ''int64'' then
        Inr (''strconv.FormatInt('' @ structName @ ''.'' @ name f @ '', 10)'')
      else if typeStr f = ''int32'' then
        Inr (''strconv.FormatInt(int64('' @ structName @ ''.'' @ name f @ ''), 10)'')
      else if typeStr f = ''int16'' then
        Inr (''strconv.FormatInt(int64('' @ structName @ ''.'' @ name f @ ''), 10)'')
      else if typeStr f = ''int8'' then
        Inr (''strconv.FormatInt(int64('' @ structName @ ''.'' @ name f @ ''), 10)'')
      else if typeStr f = ''float64'' then
        Inr (''strconv.FormatFloat('' @ structName @ ''.'' @ name f @ '', '' @ SQ @ ''E'' @ SQ @
             '', -1, 64)'')
      else if typeStr f = ''float32'' then
        Inr (''strconv.FormatFloat(float64('' @ structName @ ''.'' @ name f @ ''), '' @ SQ @ ''E'' @
             SQ @ '', -1, 32)'')
      else Inl (Unsupport (typeStr f @ ''unsupport'')))\<close>

definition funcEq :: "Field \<Rightarrow> string \<Rightarrow> string \<Rightarrow> string \<Rightarrow> panic + string" where
  \<open>funcEq f pref structName nqlVarName =
     (case funcValue f structName of
        Inl e \<Rightarrow> Inl e
      | Inr v \<Rightarrow>
          if name f = name IDFIELD then Inr (''id('' @ nqlVarName @ '')=='' @ v)
          else Inr (''"'' @ pref @ nickname f @ ''=="+'' @ v))\<close>

section \<open>Template emission\<close>

text \<open>
  Five methods emit the same dispatch on the requested field name: a \<^verbatim>\<open>for\<close> loop over
  \<^verbatim>\<open>fields\<close> whose body is an \<^verbatim>\<open>if\<close>/\<^verbatim>\<open>else if\<close> chain with one branch for each field of
  the struct, in the order of \<^verbatim>\<open>s.fields\<close>; nothing when the struct has no field.
  \<open>chain body\<close> is that loop, \<open>body f\<close> being the statement of the branch of \<open>f\<close>.
\<close>

definition chain_item :: "(Field \<Rightarrow> panic + string) \<Rightarrow> nat \<times> Field \<Rightarrow> panic + call list" where
  \<open>chain_item body p =
     (case body (snd p) of
        Inl e \<Rightarrow> Inl e
      | Inr stmt \<Rightarrow>
          Inr ((if fst p \<noteq> 0 then [Printf ''else ''] else []) @
               [Printlnf (''if f == "'' @ nickname (snd p) @ ''" {''),
                Printlnf stmt,
                Printf ''}'']))\<close>

definition chain :: "(Field \<Rightarrow> panic + string) \<Rightarrow> Field list \<Rightarrow> panic + call list" where
  \<open>chain body fs =
     (if length fs > 0 then
        seqE ([Inr [Printlnf (TAB @ ''for _, f := range fields {'')]] @
              map (chain_item body) (enumerate 0 fs) @
              [Inr [Printlnf (NL @ TAB @ ''}'')]])
      else Inr [])\<close>

definition funcConditionItem :: "Struct \<Rightarrow> panic + call list" where
  \<open>funcConditionItem s =
     seqE [Inr [Printlnf (''func (m *'' @ struct_name s @ '') ConditionItem(fields ...string) []string {''),
                Printlnf ''result := make([]string, 0)''],
           chain (\<lambda>f. case funcEq f (''v.'' @ struct_nickname s @ ''.'') ''m'' ''v'' of
                         Inl e \<Rightarrow> Inl e
                       | Inr eq \<Rightarrow> Inr (''result = append(result,'' @ eq @ '')''))
                 (struct_fields s),
           Inr [Printlnf ''return result'',
                Printlnf ''}'']]\<close>

definition funcBindOne :: "Struct \<Rightarrow> call list" where
  \<open>funcBindOne s =
     [Printlnf (''func (m *'' @ struct_name s @ '') BindOne(result *nebula_go.ResultSet,fields ...string) {''),
      Printlnf ''if result.GetRowSize() == 0 {'',
      Printlnf (TAB @ ''return''),
      Printlnf ''}'',
      Printlnf ''record,err := result.GetRowValuesByIndex(0)'',
      Printlnf ''if err != nil {'',
      Printlnf ''panic(err)'',
      Printlnf ''}'',
      Printlnf ''m.BindRecord(record)'',
      Printlnf ''}'']\<close>

definition funcOne :: "Struct \<Rightarrow> call list" where
  \<open>funcOne s =
     [Printlnf (''func (m *'' @ struct_name s @ '') One(session *nebula_go.Session,fields ...string) {''),
      Printlnf ''var where string'',
      Printlnf ''if len(fields) > 0 {'',
      Printlnf ''where = " WHERE " + strings.Join(m.ConditionItem(fields...), ",")'',
      Printlnf ''}'',
      Printlnf (''nql := "MATCH (v:'' @ struct_nickname s @ '') " + where + " return id(v) as '' @
                struct_nickname s @ ''_id" + ''),
      Printlnf ''`''] @
     map (\<lambda>f. Printlnf (TAB @ '',v.'' @ struct_nickname s @ ''.'' @ nickname f @ '' as '' @
                         struct_nickname s @ ''_'' @ nickname f)) (struct_fields s) @
     [Printlnf '' limit 1`'',
      Printlnf ''result,err := session.Execute(nql)'',
      Printlnf ''if err != nil {'',
      Printlnf ''panic(err)'',
      Printlnf ''}'',
      Printlnf ''if result.GetErrorCode() != 0 {'',
      Printlnf (TAB @ ''panic(result.GetErrorMsg())''),
      Printlnf ''}'',
      Printlnf ''if result.GetRowSize() == 0 {'',
      Printlnf (TAB @ ''return''),
      Printlnf ''}'',
      Printlnf ''record,err := result.GetRowValuesByIndex(0)'',
      Printlnf ''if err != nil {'',
      Printlnf ''panic(err)'',
      Printlnf ''}'',
      Printlnf ''m.BindRecord(record)'',
      Printlnf ''}'']\<close>

definition funcList :: "Struct \<Rightarrow> call list" where
  \<open>funcList s =
     [Printlnf (''func (m *'' @ struct_name s @ '') List(session *nebula_go.Session, ms *'' @
                struct_name s @ ''List, offset, size int64, fields ...string) {''),
      Printlnf ''var where string'',
      Printlnf ''if len(fields) > 0 {'',
      Printlnf ''where = " WHERE " + strings.Join(m.ConditionItem(fields...), ",")'',
      Printlnf ''}'',
      Printlnf (''nql := "MATCH (v:'' @ struct_nickname s @ '') " + where + " return id(v) as '' @
                struct_nickname s @ ''_id" +'')] @
     map (\<lambda>f. Printlnf (TAB @ TAB @ TAB @ ''",v.'' @ struct_nickname s @ ''.'' @ nickname f @
                         '' as '' @ struct_nickname s @ ''_'' @ nickname f @ ''" +''))
         (struct_fields s) @
     [Printlnf '' " SKIP " + strconv.FormatInt(offset, 10) + " LIMIT " + strconv.FormatInt(size, 10)'',
      Printlnf ''result,err := session.Execute(nql)'',
      Printlnf ''if err != nil {'',
      Printlnf ''panic(err)'',
      Printlnf ''}'',
      Printlnf ''if result.GetErrorCode() != 0 {'',
      Printlnf (TAB @ ''panic(result.GetErrorMsg())''),
      Printlnf ''}'',
      Printlnf ''ms.BindResult(result)'',
      Printlnf ''}'']\<close>

definition funcInsertTag :: "Struct \<Rightarrow> call list" where
  \<open>funcInsertTag s =
     (if \<not> isTag s then []
      else
        [Printlnf (''func (m *'' @ struct_name s @ '') Insert(session *nebula_go.Session, fields ...string) {''),
         Printlnf ''if len(fields) == 0 {'',
         Printlnf ''fields = m.AllFields()'',
         Printlnf ''}'',
         Printlnf (''nql := "insert VERTEX " + m.TagName() +"("+m.NqlNames(fields...)+") VALUES " + '' @ NL @
                   TAB @ ''strconv.FormatInt(m.Id2(),10) + ":(" + m.NqlValues(fields...)+ ")"''),
         Printlnf ''result,_ := session.Execute(nql)'',
         Printlnf ''checkResultSet(nql, result)'',
         Printlnf ''}''])\<close>

definition funcInsertEdge :: "Struct \<Rightarrow> call list" where
  \<open>funcInsertEdge s =
     (if \<not> isEdge s then []
      else
        [Printlnf (''func (m *'' @ struct_name s @ '') Insert(session *nebula_go.Session, fields ...string) {''),
         Printlnf ''if len(fields) == 0 {'',
         Printlnf ''fields = m.AllFields()'',
         Printlnf ''}'',
         Printlnf (''nql := "insert EDGE " + m.EdgeName() +"("+m.NqlNames(fields...)+") VALUES " + '' @ NL @
                   TAB @ ''strconv.FormatInt(m.Src(),10) + "->" + strconv.FormatInt(m.Dst(),10) + ":(" + m.NqlValues(fields...)+ ")"''),
         Printlnf ''result,_ := session.Execute(nql)'',
         Printlnf ''checkResultSet(nql, result)'',
         Printlnf ''}''])\<close>

definition funcRemoveTag :: "Struct \<Rightarrow> call list" where
  \<open>funcRemoveTag s =
     (if \<not> isTag s then []
      else
        [Printlnf (''func (m *'' @ struct_name s @ '') RemoveById(session *nebula_go.Session) {''),
         Printlnf ''nql := "DELETE VERTEX " + strconv.FormatInt(m.Id(),10) + " WITH EDGE;"'',
         Printlnf ''result,_ := session.Execute(nql)'',
         Printlnf ''checkResultSet(nql, result)'',
         Printlnf ''}''])\<close>

definition funcRemoveEdge :: "Struct \<Rightarrow> call list" where
  \<open>funcRemoveEdge s =
     (if \<not> isEdge s then []
      else
        [Printlnf (''func (m *'' @ struct_name s @ '') RemoveById(session *nebula_go.Session) {''),
         Printlnf ''nql := "DELETE EDGE " + strconv.FormatInt(m.Src(),10) + "->" + strconv.FormatInt(m.Dst(),10)'',
         Printlnf ''result,_ := session.Execute(nql)'',
         Printlnf ''checkResultSet(nql, result)'',
         Printlnf ''}''])\<close>

definition funcBindResult :: "Struct \<Rightarrow> call list" where
  \<open>funcBindResult s =
     [Printlnf (''type '' @ struct_name s @ ''List []*'' @ struct_name s),
      Printlnf (''func (ms *'' @ struct_name s @ ''List) BindResult(result *nebula_go.ResultSet, fields ...string) {''),
      Printlnf ''if len(fields) == 0 {'',
      Printlnf (''fields = (&'' @ struct_name s @ ''{}).AllFieldsWithId()''),
      Printlnf ''}'',
      Printlnf ''for i,_ := range result.GetRows() {'',
      Printlnf ''record,err := result.GetRowValuesByIndex(i)'',
      Printlnf ''if err != nil {'',
      Printlnf ''panic(err)'',
      Printlnf ''}'',
      Printlnf (''m := &'' @ struct_name s @ ''{}''),
      Printlnf ''m.BindRecord(record, fields...)'',
      Printlnf ''*ms = append(*ms, m)'',
      Printlnf ''}'',
      Printlnf ''}'']\<close>

definition funcBindRecord :: "Struct \<Rightarrow> panic + call list" where
  \<open>funcBindRecord s =
     seqE [Inr [Printlnf (''func (m *'' @ struct_name s @ '') BindRecord(record *nebula_go.Record, fields ...string) {''),
                Printlnf ''if len(fields) == 0 {'',
                Printlnf ''fields = m.AllFieldsWithId()'',
                Printlnf ''}''],
           (if isTag s then
              (case Field_funcBindResult IDFIELD ''m'' (struct_nickname s @ ''_'') of
                 Inl e \<Rightarrow> Inl e
               | Inr t \<Rightarrow> Inr [Printlnf t])
            else Inr []),
           chain (\<lambda>f. Field_funcBindResult f ''m'' (struct_nickname s @ ''_'')) (struct_fields s),
           Inr [Printlnf ''}'']]\<close>

definition funcAllFields :: "Struct \<Rightarrow> call list" where
  \<open>funcAllFields s =
     [Printlnf (''func (m *'' @ struct_name s @ '') AllFields() []string {''),
      Printlnf (TAB @ ''return []string{'')] @
     map (\<lambda>f. Printf (TAB @ TAB @ ''"'' @ nickname f @ ''",'')) (struct_fields s) @
     [Printlnf (TAB @ ''}''),
      Printlnf ''}'']\<close>

definition funcAllFieldsWithId :: "Struct \<Rightarrow> call list" where
  \<open>funcAllFieldsWithId s =
     [Printlnf (''func (m *'' @ struct_name s @ '') AllFieldsWithId() []string {''),
      Printlnf (TAB @ ''return []string{'')] @
     map (\<lambda>f. Printf (TAB @ TAB @ ''"'' @ nickname f @ ''",'')) (struct_fields s) @
     [Printf (TAB @ TAB @ ''"id",''),
      Printlnf (TAB @ ''}''),
      Printlnf ''}'']\<close>

definition funcTagName :: "Struct \<Rightarrow> call list" where
  \<open>funcTagName s =
     (if \<not> isTag s then []
      else
        [Printlnf (''func (m *'' @ struct_name s @ '') TagName() string {''),
         Printlnf (TAB @ ''return "'' @ struct_nickname s @ ''"''),
         Printlnf ''}''])\<close>

definition funcEdgeName :: "Struct \<Rightarrow> call list" where
  \<open>funcEdgeName s =
     (if \<not> isEdge s then []
      else
        [Printlnf (''func (m *'' @ struct_name s @ '') EdgeName() string {''),
         Printlnf (TAB @ ''return "'' @ struct_nickname s @ ''"''),
         Printlnf ''}''])\<close>

definition funcNqlNames :: "Struct \<Rightarrow> call list" where
  \<open>funcNqlNames s =
     [Printlnf (''func (m *'' @ struct_name s @ '') NqlNames(fields ...string) string {''),
      Printlnf (TAB @ ''return strings.Join(fields, ",")''),
      Printlnf ''}'']\<close>

definition funcNqlNameValues :: "Struct \<Rightarrow> panic + call list" where
  \<open>funcNqlNameValues s =
     seqE [Inr [Printlnf (''func (m *'' @ struct_name s @ '') NqlNameValues(split string, fields ...string) []string {''),
                Printlnf (TAB @ ''values := make([]string, 0)'')],
           chain (\<lambda>f. case funcValue f ''m'' of
                         Inl e \<Rightarrow> Inl e
                       | Inr v \<Rightarrow> Inr (''values = append(values, "'' @ nickname f @ ''" + split + '' @ v @ '')''))
                 (struct_fields s),
           Inr [Printlnf (TAB @ ''return values''),
                Printlnf ''}'']]\<close>

definition funcNqlBind :: "Struct \<Rightarrow> panic + call list" where
  \<open>funcNqlBind s =
     seqE [Inr [Printlnf (''func (m *'' @ struct_name s @ '') NqlBind(structName string, fields ...string) []string {''),
                Printlnf (TAB @ ''values := make([]string, 0)'')],
           chain (\<lambda>f. Inr (''values = append(values, structName + ".'' @ struct_nickname s @ ''.'' @
                            nickname f @ '' as '' @ struct_nickname s @ ''_'' @ nickname f @ ''")''))
                 (struct_fields s),
           Inr [Printlnf (TAB @ ''return values''),
                Printlnf ''}'']]\<close>

definition funcNqlValues :: "Struct \<Rightarrow> panic + call list" where
  \<open>funcNqlValues s =
     seqE [Inr [Printlnf (''func (m *'' @ struct_name s @ '') NqlValues(fields ...string) string {''),
                Printlnf (TAB @ ''var values string'')],
           chain (\<lambda>f. case funcValue f ''m'' of
                         Inl e \<Rightarrow> Inl e
                       | Inr v \<Rightarrow> Inr (''values = values + "," + '' @ v))
                 (struct_fields s),
           Inr [Printlnf (TAB @ ''return values[1:]''),
                Printlnf ''}'']]\<close>

text \<open>The columns of \<^verbatim>\<open>CreateTag\<close> and \<^verbatim>\<open>CreateEdge\<close>: a comma after every field but
  the last.\<close>

definition Create_column :: "nat \<Rightarrow> nat \<times> Field \<Rightarrow> call list" where
  \<open>Create_column n p =
     Printf (TAB @ TAB @ nickname (snd p) @ TAB @ TAB @ TAB @ toNebulaType (snd p) @
             TAB @ TAB @ TAB @ ''COMMENT '' @ SQ @ comment (snd p) @ SQ) #
     (if int (fst p) \<noteq> int n - 1 then [Printlnf '',''] else [])\<close>

definition CreateTag_index :: "Field \<Rightarrow> call list" where
  \<open>CreateTag_index f =
     (if isIndex f then
        [Printf (''nql = "CREATE TAG INDEX IF NOT EXISTS idx_'' @ nickname f),
         Printlnf ('' ON " + m.TagName() + "('' @ otherIndexFields f @ '')"''),
         Printlnf ''result,_ = session.Execute(nql)'',
         Printlnf ''checkResultSet(nql, result)'']
      else [])\<close>

definition CreateTag :: "Struct \<Rightarrow> call list" where
  \<open>CreateTag s =
     (if \<not> isTag s then []
      else
        [Printlnf (''func (m *'' @ struct_name s @ '') Create(session *nebula_go.Session) {''),
         Printlnf (TAB @ ''nql:=`CREATE TAG IF NOT EXISTS ` + m.TagName() + `('')] @
        concat (map (Create_column (length (struct_fields s))) (enumerate 0 (struct_fields s))) @
        [Printlnf '');`'',
         Printlnf ''result,_ := session.Execute(nql)'',
         Printlnf ''checkResultSet(nql, result)''] @
        concat (map CreateTag_index (struct_fields s)) @
        [Printlnf ''}''])\<close>

definition CreateEdge :: "Struct \<Rightarrow> call list" where
  \<open>CreateEdge s =
     (if \<not> isEdge s then []
      else
        [Printlnf (''func (m *'' @ struct_name s @ '') Create(session *nebula_go.Session) {''),
         Printlnf (TAB @ ''nql := `CREATE EDGE IF NOT EXISTS ` + m.EdgeName() + `('')] @
        concat (map (Create_column (length (struct_fields s))) (enumerate 0 (struct_fields s))) @
        [Printlnf (TAB @ '');`''),
         Printlnf ''result,_ := session.Execute(nql)'',
         Printlnf ''checkResultSet(nql, result)'',
         Printlnf ''}''])\<close>

text \<open>The aggregate \<^verbatim>\<open>Create\<close> and \<^verbatim>\<open>checkResultSet\<close>, the one call with an operand.\<close>

definition Create :: "Struct list \<Rightarrow> call list" where
  \<open>Create ss =
     [Printlnf ''func Create(session *nebula_go.Session) {''] @
     concat (map (\<lambda>s. if isTag s \<or> isEdge s
                       then [Printlnf (''(&'' @ struct_name s @ ''{}).Create(session)'')]
                       else []) ss) @
     [Printlnf ''}'']\<close>

definition checkResultSet :: "call list" where
  \<open>checkResultSet =
     [(''%s'' @ NL,
       [NL @
        TAB @ ''func checkResultSet(prefix string, res *nebula_go.ResultSet) {'' @ NL @
        TAB @ TAB @ ''if !res.IsSucceed() {'' @ NL @
        TAB @ TAB @ TAB @ ''panic(fmt.Sprintf("%s, ErrorCode: %v, ErrorMsg: %s", prefix, res.GetErrorCode(), res.GetErrorMsg()))'' @ NL @
        TAB @ TAB @ ''}'' @ NL @
        TAB @ ''}''])]\<close>

section \<open>The run\<close>

text \<open>The body of the loop of \<^verbatim>\<open>generate\<close> over \<^verbatim>\<open>g.Structs\<close>.\<close>

definition generate_struct :: "Struct \<Rightarrow> panic + call list" where
  "generate_struct s =
     seqE [Inr (funcAllFields s),
           Inr (funcAllFieldsWithId s),
           Inr (funcTagName s),
           Inr (funcEdgeName s),
           funcNqlNameValues s,
           funcNqlValues s,
           Inr (funcNqlNames s),
           funcNqlBind s,
           Inr (CreateTag s),
           Inr (CreateEdge s),
           Inr (funcInsertTag s),
           Inr (funcInsertEdge s),
           funcBindRecord s,
           Inr (funcBindResult s),
           funcConditionItem s,
           Inr (funcBindOne s),
           Inr (funcOne s),
           Inr (funcList s),
           Inr (funcRemoveTag s),
           Inr (funcRemoveEdge s)]"

text \<open>
  \<^verbatim>\<open>generate\<close>. \<open>generate_inspect\<close> is the body of the loop over the files up to the
  traversal: the allow-list is set when type names were given, then the file is
  traversed. \<open>generate_files\<close> is the loop, which appends the structs of each file to
  \<^verbatim>\<open>g.Structs\<close> (the files themselves are not read again), and \<open>generate_emit\<close> is
  the emission that follows it.
\<close>

definition generate_inspect :: "string list \<Rightarrow> File \<Rightarrow> panic + File" where
  "generate_inspect allow f =
     (let f1 = (if length allow > 0 then f\<lparr>allowTypeNames := Some (remdups allow)\<rparr> else f)
      in Inspect (Root (file_ast f1)) f1)"

fun generate_files :: "string list \<Rightarrow> File list \<Rightarrow> Generator \<Rightarrow> panic + Generator" where
  "generate_files allow [] g = Inr g"
| "generate_files allow (f # fs) g =
     (case generate_inspect allow f of
        Inl e \<Rightarrow> Inl e
      | Inr f' \<Rightarrow> generate_files allow fs (g\<lparr>Structs := Structs g @ structs f'\<rparr>))"

definition generate_emit :: "Struct list \<Rightarrow> panic + call list" where
  "generate_emit ss =
     seqE ([Inr checkResultSet] @ map generate_struct ss @ [Inr (Create ss)])"

definition generate :: "Generator \<Rightarrow> string list \<Rightarrow> panic + Generator" where
  "generate g allow =
     (case generate_files allow (files (pkg g)) g of
        Inl e \<Rightarrow> Inl e
      | Inr g1 \<Rightarrow>
          (case generate_emit (Structs g1) of
             Inl e \<Rightarrow> Inl e
           | Inr cs \<Rightarrow> Inr (g1\<lparr>buf := buf g1 @ cs\<rparr>)))"

text \<open>
  The library functions the run calls and this development takes as given:
  \<^verbatim>\<open>fmt.Sprintf\<close> on a format and its operands, \<^verbatim>\<open>format.Source\<close> (\<open>Inl\<close> is its error)
  and \<^verbatim>\<open>filepath.Join\<close>.
\<close>

record extern =
  Sprintf :: "string \<Rightarrow> string list \<Rightarrow> string"
  format_Source :: "string \<Rightarrow> string + string"
  filepath_Join :: "string \<Rightarrow> string \<Rightarrow> string"

text \<open>\<^verbatim>\<open>g.buf.Bytes()\<close>.\<close>

definition Bytes :: "extern \<Rightarrow> call list \<Rightarrow> string" where
  "Bytes E b = concat (map (\<lambda>c. Sprintf E (fst c) (snd c)) b)"

text \<open>\<^verbatim>\<open>format\<close>: the two warnings logged and the bytes returned.\<close>

definition format :: "extern \<Rightarrow> Generator \<Rightarrow> call list \<times> string" where
  "format E g =
     (case format_Source E (Bytes E (buf g)) of
        Inl err \<Rightarrow>
          ([(''warning: internal error: invalid Go generated: %s'', [err]),
            (''warning: compile the package to analyze the error'', [])],
           Bytes E (buf g))
      | Inr src \<Rightarrow> ([], src))"

text \<open>
  \<^verbatim>\<open>main\<close> from the loaded package on: the flags (\<open>outputFlag\<close> is \<^verbatim>\<open>output\<close>), the
  arguments \<^verbatim>\<open>os.Args[1:]\<close>, the directory, and the name and syntax trees of the package
  that \<^verbatim>\<open>packages.Load\<close> returned. \<open>main_init\<close> is the generator when \<^verbatim>\<open>generate\<close> is
  called and \<open>main_types\<close> the list of type names passed to it. The result of \<open>main\<close> is
  the panic that ended the process before anything was written, or the log and the one
  call of \<^verbatim>\<open>ioutil.WriteFile\<close>, with the name and the bytes passed to it (what the file
  system does with the call is not part of the model).
\<close>

record flags =
  typeNames :: string
  outputFlag :: string
  trimprefix :: string
  linecomment :: bool

record written =
  log :: "call list"
  outputName :: string
  src :: string

definition header :: "string list \<Rightarrow> string \<Rightarrow> call list" where
  \<open>header args nm =
     [(''// Code generated by "ngormgen %s"; DO NOT EDIT.'' @ NL, [Join args '' '']),
      Printf NL,
      (''package %s'', [nm]),
      Printf NL,
      Printf ''import ('',
      Printlnf (TAB @ ''"strconv"''),
      Printlnf (TAB @ ''nebula_go "github.com/vesoft-inc/nebula-go/v3"''),
      Printlnf (TAB @ TAB @ ''"strings"''),
      Printlnf (TAB @ TAB @ ''"fmt"''),
      Printlnf '')'']\<close>

definition main_init :: "flags \<Rightarrow> string list \<Rightarrow> string \<Rightarrow> ast_File list \<Rightarrow> Generator" where
  "main_init fl args nm syntax =
     (let g0 = \<lparr>buf = [], pkg = \<lparr>pkg_name = [], files = []\<rparr>, Structs = [],
                gtrimPrefix = trimprefix fl, glineComment = linecomment fl\<rparr>;
          g1 = addPackage g0 nm syntax
      in g1\<lparr>buf := buf g1 @ header args (pkg_name (pkg g1))\<rparr>)"

definition main_types :: "flags \<Rightarrow> string list" where
  "main_types fl =
     (if length (typeNames fl) > 0 then Split (typeNames fl) (CHR '','') else [])"

definition main :: "extern \<Rightarrow> flags \<Rightarrow> string list \<Rightarrow> string \<Rightarrow> string \<Rightarrow> ast_File list
    \<Rightarrow> panic + written" where
  "main E fl args dir nm syntax =
     (case generate (main_init fl args nm syntax) (main_types fl) of
        Inl e \<Rightarrow> Inl e
      | Inr g \<Rightarrow>
          Inr \<lparr>log = fst (format E g),
               outputName = (if outputFlag fl = [] then
                               filepath_Join E dir (ToLower ''ngorm_generate.go'')
                             else outputFlag fl),
               src = snd (format E g)\<rparr>)"

section \<open>The generated methods\<close>

text \<open>
  What the emitted Go methods compute, read off the templates above. The receiver is
  \<^verbatim>\<open>m\<close>; \<open>lit f\<close> stands for the value, on the receiver, of the expression that
  \<open>funcValue f ''m''\<close> emits (the literal of the field).

  \<^verbatim>\<open>AllFields\<close> returns the slice literal of the nicknames; \<^verbatim>\<open>AllFieldsWithId\<close> the
  same literal with \<^verbatim>\<open>"id"\<close> as its last element.
\<close>

definition gen_AllFields :: "Struct \<Rightarrow> string list" where
  "gen_AllFields s = map nickname (struct_fields s)"

definition gen_AllFieldsWithId :: "Struct \<Rightarrow> string list" where
  "gen_AllFieldsWithId s = map nickname (struct_fields s) @ [''id'']"

definition gen_NqlNames :: "string list \<Rightarrow> string" where
  "gen_NqlNames req = Join req '',''"

text \<open>The emitted \<^verbatim>\<open>if\<close>/\<^verbatim>\<open>else if\<close> chain runs the branch of the first field whose
  nickname is the requested name, and none when there is no such field.\<close>

definition dispatch :: "Struct \<Rightarrow> string \<Rightarrow> Field option" where
  "dispatch s r = find (\<lambda>f. nickname f = r) (struct_fields s)"

text \<open>
  \<^verbatim>\<open>NqlValues\<close>: \<^verbatim>\<open>values\<close> starts empty, every requested name that has a branch
  appends a comma and the literal, and \<^verbatim>\<open>values[1:]\<close> is returned, which panics on the
  empty string.
\<close>

definition gen_NqlValues_loop :: "(Field \<Rightarrow> string) \<Rightarrow> Struct \<Rightarrow> string list \<Rightarrow> string" where
  "gen_NqlValues_loop lit s req =
     foldl (\<lambda>values r. case dispatch s r of
                          None \<Rightarrow> values
                        | Some f \<Rightarrow> values @ '','' @ lit f) [] req"

definition gen_NqlValues :: "(Field \<Rightarrow> string) \<Rightarrow> Struct \<Rightarrow> string list \<Rightarrow> panic + string" where
  "gen_NqlValues lit s req =
     (let values = gen_NqlValues_loop lit s req
      in if length values < 1 then Inl SliceBoundsOutOfRange else Inr (drop 1 values))"

text \<open>
  \<^verbatim>\<open>ConditionItem\<close>: the Go expressions appended to \<^verbatim>\<open>result\<close>, one for every requested
  name that has a branch, as \<open>funcEq\<close> wrote them into the branch.
\<close>

definition gen_ConditionItem :: "Struct \<Rightarrow> string list \<Rightarrow> panic + string list" where
  "gen_ConditionItem s req =
     seqE (map (\<lambda>r. case dispatch s r of
                       None \<Rightarrow> Inr []
                     | Some f \<Rightarrow>
                         (case funcEq f (''v.'' @ struct_nickname s @ ''.'') ''m'' ''v'' of
                            Inl e \<Rightarrow> Inl e
                          | Inr eq \<Rightarrow> Inr [eq])) req)"

section \<open>Sample inputs\<close>

text \<open>
  Declarations and settings on which the statements below are evaluated:
  \<^verbatim>\<open>*base.Tag\<close> embedded, \<^verbatim>\<open>Name string\<close>, \<^verbatim>\<open>Age int32 `idx:""`\<close> and \<^verbatim>\<open>ID int64\<close>;
  a file declaring \<^verbatim>\<open>Person\<close>, one declaring \<^verbatim>\<open>Flag\<close> with a \<^verbatim>\<open>bool\<close> field, one
  declaring \<^verbatim>\<open>User\<close> and \<^verbatim>\<open>USER\<close>, and a file that starts with the banner of generated
  code and holds a function without receiver.
\<close>

definition tag_field :: ast_Field where
  "tag_field = \<lparr>Names = [], Type = StarExpr (SelectorExpr (Ident ''base'') ''Tag''),
     Tag = None, Comment = []\<rparr>"

definition name_field :: ast_Field where
  "name_field = \<lparr>Names = [''Name''], Type = Ident ''string'', Tag = None, Comment = []\<rparr>"

definition age_field :: ast_Field where
  "age_field = \<lparr>Names = [''Age''], Type = Ident ''int32'', Tag = Some [(''idx'', [])],
     Comment = []\<rparr>"

definition ID_field :: ast_Field where
  "ID_field = \<lparr>Names = [''ID''], Type = Ident ''int64'', Tag = None, Comment = []\<rparr>"

definition on_field :: ast_Field where
  "on_field = \<lparr>Names = [''On''], Type = Ident ''bool'', Tag = None, Comment = []\<rparr>"

text \<open>Fields whose type is not a plain identifier, and an embedded one:
  \<^verbatim>\<open>At time.Time\<close>, \<^verbatim>\<open>Tags []string\<close>, \<^verbatim>\<open>Done *bool\<close> and an embedded \<^verbatim>\<open>bool\<close>; and a
  file declaring the vertex \<^verbatim>\<open>Event\<close> with \<^verbatim>\<open>Name string\<close> and these four.\<close>

definition at_field :: ast_Field where
  "at_field = \<lparr>Names = [''At''], Type = SelectorExpr (Ident ''time'') ''Time'', Tag = None,
     Comment = []\<rparr>"

definition tags_field :: ast_Field where
  "tags_field = \<lparr>Names = [''Tags''], Type = OtherExpr, Tag = None, Comment = []\<rparr>"

definition done_field :: ast_Field where
  "done_field = \<lparr>Names = [''Done''], Type = StarExpr (Ident ''bool''), Tag = None,
     Comment = []\<rparr>"

definition embedded_bool :: ast_Field where
  "embedded_bool = \<lparr>Names = [], Type = Ident ''bool'', Tag = None, Comment = []\<rparr>"

definition event_file :: ast_File where
  "event_file = \<lparr>Comments = [], Root = Node OtherNode
     [Node (TypeSpec ''Event'' (StructType
        [tag_field, name_field, at_field, tags_field, done_field, embedded_bool])) []]\<rparr>"

definition person_file :: ast_File where
  "person_file = \<lparr>Comments = [], Root = Node OtherNode
     [Node (TypeSpec ''Person'' (StructType [tag_field, name_field, age_field])) []]\<rparr>"

definition flag_file :: ast_File where
  "flag_file = \<lparr>Comments = [], Root = Node OtherNode
     [Node (TypeSpec ''Flag'' (StructType [tag_field, on_field])) []]\<rparr>"

definition users_file :: ast_File where
  "users_file = \<lparr>Comments = [], Root = Node OtherNode
     [Node (TypeSpec ''User'' (StructType [tag_field, name_field])) [],
      Node (TypeSpec ''USER'' (StructType [tag_field, name_field])) []]\<rparr>"

definition generated_sample :: ast_File where
  \<open>generated_sample = \<lparr>Comments = [''Code generated by "ngormgen"; DO NOT EDIT.'' @ NL],
     Root = Node OtherNode
       [Node (FuncDecl None) [],
        Node (TypeSpec ''PersonList'' (StructType [tag_field, name_field])) []]\<rparr>\<close>

text \<open>A formatter that puts the operands in place of \<^verbatim>\<open>%s\<close> and copies every other
  byte, an output path, and a source formatter that accepts or rejects everything.\<close>

fun sample_Sprintf :: "string \<Rightarrow> string list \<Rightarrow> string" where
  "sample_Sprintf [] a = []"
| "sample_Sprintf [c] a = [c]"
| "sample_Sprintf (c # d # ds) a =
     (if c = CHR ''%'' \<and> d = CHR ''s'' then
        (case a of [] \<Rightarrow> sample_Sprintf ds [] | x # xs \<Rightarrow> x @ sample_Sprintf ds xs)
      else c # sample_Sprintf (d # ds) a)"

definition sample_extern :: extern where
  "sample_extern = \<lparr>Sprintf = sample_Sprintf, format_Source = Inr,
     filepath_Join = (\<lambda>d n. d @ ''/'' @ n)\<rparr>"

definition failing_extern :: extern where
  "failing_extern = sample_extern\<lparr>format_Source := (\<lambda>b. Inl ''expected declaration'')\<rparr>"

definition sample_flags :: flags where
  "sample_flags = \<lparr>typeNames = [], outputFlag = [], trimprefix = [], linecomment = False\<rparr>"

text \<open>The literals of a receiver whose string fields hold \<^verbatim>\<open>Alice\<close> and whose numeric
  fields hold 30.\<close>

definition sample_lit :: "Field \<Rightarrow> string" where
  \<open>sample_lit f = (if typeStr f = ''string'' then ''"Alice"'' else ''30'')\<close>

section \<open>Notions used in the statements\<close>

text \<open>The field types \<open>funcValue\<close> and \<open>Field_funcBindResult\<close> have a case for.\<close>

definition supported :: "string list" where
  "supported = [''string'', ''int'', ''int64'', ''int32'', ''int16'', ''int8'', ''float64'',
     ''float32'']"

text \<open>The fields that one field declaration adds to the struct: one for each name
  when its type is an identifier, none otherwise.\<close>

definition decl_fields :: "ast_Field \<Rightarrow> Field list" where
  "decl_fields fld =
     (case Type fld of Ident tn \<Rightarrow> map (genStruct_fi fld tn) (Names fld) | _ \<Rightarrow> [])"

section \<open>Auxiliary facts\<close>

lemmas extract_defs = genStruct_stru_def genStruct_field_def genStruct_mark_def genStruct_fi_def
  POTYPE_TAG_def POTYPE_EDGE_def Lookup_def ToLower_def toLower_char_def
  tag_field_def name_field_def age_field_def ID_field_def on_field_def
  at_field_def tags_field_def done_field_def embedded_bool_def

lemmas gen_defs = gen_NqlValues_def gen_NqlValues_loop_def dispatch_def gen_ConditionItem_def
  funcEq_def funcValue_def IDFIELD_def sample_lit_def

lemmas emit_defs = Printf_def Printlnf_def CreateTag_def CreateTag_index_def Create_column_def
  toNebulaType_def funcTagName_def

lemmas scan_defs = main_init_def main_types_def addPackage_def addPackage_file_def
  generated_file_def generate_inspect_def genStruct_def allowTypeName_def len_map_def
  delete_map_def sample_flags_def

subsection \<open>When emission panics\<close>

lemma seqE_isl: "isl (seqE xs) \<longleftrightarrow> (\<exists>x\<in>set xs. isl x)"
  by (induction xs) (auto split: sum.splits)

lemma isl_case_Inr: "isl (case x of Inl e \<Rightarrow> Inl e | Inr v \<Rightarrow> Inr (g v)) \<longleftrightarrow> isl x"
  by (cases x) auto

lemma funcValue_isl: "isl (funcValue f sn) \<longleftrightarrow> typeStr f \<notin> set supported"
  by (simp add: funcValue_def supported_def)

lemma Field_funcBindResult_isl:
  "isl (Field_funcBindResult f sn p) \<longleftrightarrow> typeStr f \<notin> set supported"
  by (simp add: Field_funcBindResult_def supported_def Let_def)

lemma funcEq_isl: "isl (funcEq f p sn v) \<longleftrightarrow> typeStr f \<notin> set supported"
  using funcValue_isl [of f sn] by (auto simp: funcEq_def split: sum.splits)

lemma chain_item_isl: "isl (chain_item body p) \<longleftrightarrow> isl (body (snd p))"
  by (simp add: chain_item_def split: sum.splits)

lemma snd_enumerate: "snd ` set (enumerate n fs) = set fs"
  by (metis list.set_map map_snd_enumerate)

lemma chain_isl: "isl (chain body fs) \<longleftrightarrow> (\<exists>f\<in>set fs. isl (body f))"
proof (cases fs)
  case Nil
  then show ?thesis by (simp add: chain_def)
next
  case (Cons a as)
  have "(\<exists>x\<in>set (enumerate 0 fs). isl (body (snd x))) \<longleftrightarrow> (\<exists>f\<in>set fs. isl (body f))"
    using snd_enumerate [of 0 fs] by (metis (no_types, lifting) imageE image_eqI)
  with Cons show ?thesis
    by (simp add: chain_def seqE_isl chain_item_isl del: seqE.simps enumerate_simps)
qed

lemma funcNqlNameValues_isl:
  "isl (funcNqlNameValues s) \<longleftrightarrow> (\<exists>f\<in>set (struct_fields s). typeStr f \<notin> set supported)"
  by (simp add: funcNqlNameValues_def seqE_isl chain_isl isl_case_Inr funcValue_isl
      del: seqE.simps)

lemma funcNqlValues_isl:
  "isl (funcNqlValues s) \<longleftrightarrow> (\<exists>f\<in>set (struct_fields s). typeStr f \<notin> set supported)"
  by (simp add: funcNqlValues_def seqE_isl chain_isl isl_case_Inr funcValue_isl
      del: seqE.simps)

lemma funcNqlBind_isl: "\<not> isl (funcNqlBind s)"
  by (simp add: funcNqlBind_def seqE_isl chain_isl del: seqE.simps)

lemma funcConditionItem_isl:
  "isl (funcConditionItem s) \<longleftrightarrow> (\<exists>f\<in>set (struct_fields s). typeStr f \<notin> set supported)"
  by (simp add: funcConditionItem_def seqE_isl chain_isl isl_case_Inr funcEq_isl
      del: seqE.simps)

lemma funcBindRecord_isl:
  "isl (funcBindRecord s) \<longleftrightarrow> (\<exists>f\<in>set (struct_fields s). typeStr f \<notin> set supported)"
proof -
  have "\<not> isl (Field_funcBindResult IDFIELD sn p)" for sn p
    by (simp add: Field_funcBindResult_isl IDFIELD_def supported_def)
  then show ?thesis
    by (simp add: funcBindRecord_def seqE_isl chain_isl isl_case_Inr Field_funcBindResult_isl
        del: seqE.simps)
qed

lemma generate_struct_isl:
  "isl (generate_struct s) \<longleftrightarrow> (\<exists>f\<in>set (struct_fields s). typeStr f \<notin> set supported)"
  by (simp add: generate_struct_def seqE_isl funcNqlNameValues_isl funcNqlValues_isl
      funcNqlBind_isl funcConditionItem_isl funcBindRecord_isl del: seqE.simps)

lemma generate_emit_isl:
  "isl (generate_emit ss) \<longleftrightarrow>
     (\<exists>s\<in>set ss. \<exists>f\<in>set (struct_fields s). typeStr f \<notin> set supported)"
  by (simp add: generate_emit_def seqE_isl generate_struct_isl del: seqE.simps)

lemma main_isl:
  assumes "generate_files (main_types fl) (files (pkg (main_init fl args nm syntax)))
             (main_init fl args nm syntax) = Inr g"
  shows "isl (main E fl args dir nm syntax) \<longleftrightarrow>
           (\<exists>s\<in>set (Structs g). \<exists>f\<in>set (struct_fields s). typeStr f \<notin> set supported)"
  using assms generate_emit_isl [of "Structs g"]
  by (auto simp: main_def generate_def isl_def split: sum.splits)

subsection \<open>What extraction builds\<close>

lemma foldl_genStruct_field_fields:
  "struct_fields (foldl genStruct_field st fl) = struct_fields st @ concat (map decl_fields fl)"
proof (induction fl arbitrary: st)
  case Nil
  then show ?case by simp
next
  case (Cons fld fl)
  have "struct_fields (genStruct_field st fld) = struct_fields st @ decl_fields fld"
    by (simp add: genStruct_field_def decl_fields_def genStruct_mark_def split: expr.splits)
  with Cons show ?case by simp
qed

lemma struct_fields_genStruct_stru:
  "struct_fields (genStruct_stru nm fl) = concat (map decl_fields fl)"
  by (simp add: genStruct_stru_def foldl_genStruct_field_fields)

lemma foldl_genStruct_field_names:
  "struct_name (foldl genStruct_field st fl) = struct_name st \<and>
   struct_nickname (foldl genStruct_field st fl) = struct_nickname st"
proof (induction fl arbitrary: st)
  case Nil
  then show ?case by simp
next
  case (Cons fld fl)
  have "struct_name (genStruct_field st fld) = struct_name st \<and>
        struct_nickname (genStruct_field st fld) = struct_nickname st"
    by (simp add: genStruct_field_def genStruct_mark_def split: expr.splits)
  with Cons show ?case by simp
qed

lemma struct_nickname_genStruct_stru: "struct_nickname (genStruct_stru nm fl) = ToLower nm"
  by (simp add: genStruct_stru_def foldl_genStruct_field_names)

lemma nickname_genStruct_fi: "nickname (genStruct_fi fld tn n) = ToLower n"
  by (simp add: genStruct_fi_def Let_def split: option.splits)

lemma index_genStruct_fi:
  "Tag fld = Some tag \<Longrightarrow> map_of tag ''idx'' = Some v \<Longrightarrow>
   isIndex (genStruct_fi fld tn n) \<and> otherIndexFields (genStruct_fi fld tn n) = v"
  by (simp add: genStruct_fi_def Let_def Lookup_def)

lemma nicknames_decl_fields:
  "map nickname (decl_fields fld) =
     (case Type fld of Ident tn \<Rightarrow> map ToLower (Names fld) | _ \<Rightarrow> [])"
  by (simp add: decl_fields_def nickname_genStruct_fi split: expr.splits)

lemma nickname_in_decl_fields:
  "r \<in> set (map nickname (decl_fields fld)) \<longleftrightarrow>
     (\<exists>tn. Type fld = Ident tn \<and> (\<exists>n\<in>set (Names fld). ToLower n = r))"
  by (cases "Type fld") (auto simp: nicknames_decl_fields)

text \<open>The scans of the sample files.\<close>

lemma scan_person_file:
  "generate_files (main_types sample_flags)
     (files (pkg (main_init sample_flags [] ''model'' [person_file])))
     (main_init sample_flags [] ''model'' [person_file]) =
   Inr ((main_init sample_flags [] ''model'' [person_file])
         \<lparr>Structs := [genStruct_stru ''Person'' [tag_field, name_field, age_field]]\<rparr>)"
  by (simp add: scan_defs person_file_def)

lemma scan_flag_file:
  "generate_files (main_types sample_flags)
     (files (pkg (main_init sample_flags [] ''model'' [flag_file])))
     (main_init sample_flags [] ''model'' [flag_file]) =
   Inr ((main_init sample_flags [] ''model'' [flag_file])
         \<lparr>Structs := [genStruct_stru ''Flag'' [tag_field, on_field]]\<rparr>)"
  by (simp add: scan_defs flag_file_def)

lemma scan_users_file:
  "generate_files (main_types sample_flags)
     (files (pkg (main_init sample_flags [] ''model'' [users_file])))
     (main_init sample_flags [] ''model'' [users_file]) =
   Inr ((main_init sample_flags [] ''model'' [users_file])
         \<lparr>Structs := [genStruct_stru ''User'' [tag_field, name_field],
                      genStruct_stru ''USER'' [tag_field, name_field]]\<rparr>)"
  by (simp add: scan_defs users_file_def)

lemma scan_event_file:
  "generate_files (main_types sample_flags)
     (files (pkg (main_init sample_flags [] ''model'' [event_file])))
     (main_init sample_flags [] ''model'' [event_file]) =
   Inr ((main_init sample_flags [] ''model'' [event_file])
         \<lparr>Structs := [genStruct_stru ''Event''
            [tag_field, name_field, at_field, tags_field, done_field, embedded_bool]]\<rparr>)"
  by (simp add: scan_defs event_file_def)

text \<open>A field of an extracted struct comes from a name of a declared field whose
  type is an identifier, and carries that name and that identifier.\<close>

lemma struct_field_declared:
  assumes "f \<in> set (struct_fields (genStruct_stru nm fl))"
  shows "\<exists>fld\<in>set fl. \<exists>tn. Type fld = Ident tn \<and> typeStr f = tn \<and> name f \<in> set (Names fld)"
proof -
  from assms obtain fld where fld: "fld \<in> set fl" "f \<in> set (decl_fields fld)"
    by (auto simp: struct_fields_genStruct_stru)
  then obtain tn n where "Type fld = Ident tn" "n \<in> set (Names fld)" "f = genStruct_fi fld tn n"
    by (cases "Type fld") (auto simp: decl_fields_def)
  moreover have "typeStr (genStruct_fi fld tn n) = tn \<and> name (genStruct_fi fld tn n) = n"
    by (simp add: genStruct_fi_def Let_def split: option.splits)
  ultimately show ?thesis
    using fld(1) by auto
qed

subsection \<open>Lists\<close>

lemma sublist_concat_map: "x \<in> set xs \<Longrightarrow> sublist (g x) (concat (map g xs))"
proof -
  assume "x \<in> set xs"
  then obtain ys zs where "xs = ys @ x # zs"
    by (auto simp: in_set_conv_decomp)
  then have "concat (map g xs) = concat (map g ys) @ g x @ concat (map g zs)"
    by simp
  then show ?thesis
    unfolding sublist_def by blast
qed

lemma map_filter_Nil: "List.map_filter g xs = [] \<longleftrightarrow> (\<forall>x\<in>set xs. g x = None)"
  by (induction xs) (auto simp: List.map_filter_simps split: option.splits)

lemma drop_commas:
  "fs \<noteq> [] \<Longrightarrow> drop 1 (concat (map (\<lambda>f. '','' @ lit f) fs)) = Join (map lit fs) '',''"
proof (induction fs rule: induct_list012)
  case 1
  then show ?case by simp
next
  case (2 x)
  then show ?case by simp
next
  case (3 x y zs)
  then show ?case by simp
qed

subsection \<open>The generated dispatch\<close>

lemma dispatch_None: "dispatch s r = None \<longleftrightarrow> r \<notin> nickname ` set (struct_fields s)"
  by (auto simp: dispatch_def find_None_iff)

lemma dispatch_Some_nickname: "dispatch s r = Some f \<Longrightarrow> nickname f = r"
  by (auto simp: dispatch_def find_Some_iff)

lemma NqlValues_foldl:
  "foldl (\<lambda>values r. case dispatch s r of None \<Rightarrow> values | Some f \<Rightarrow> values @ '','' @ lit f)
     acc req =
   acc @ concat (map (\<lambda>f. '','' @ lit f) (List.map_filter (dispatch s) req))"
  by (induction req arbitrary: acc) (auto simp: List.map_filter_simps split: option.splits)

text \<open>The emitted \<^verbatim>\<open>AllFields\<close> and \<^verbatim>\<open>AllFieldsWithId\<close> return the slice literals whose
  elements are \<open>gen_AllFields\<close> and \<open>gen_AllFieldsWithId\<close>, each name between double quotes
  and followed by a comma.\<close>

lemma funcAllFields_literal:
  \<open>funcAllFields s =
     [Printlnf (''func (m *'' @ struct_name s @ '') AllFields() []string {''),
      Printlnf (TAB @ ''return []string{'')] @
     map (\<lambda>n. Printf (TAB @ TAB @ ''"'' @ n @ ''",'')) (gen_AllFields s) @
     [Printlnf (TAB @ ''}''), Printlnf ''}'']\<close>
  by (simp add: funcAllFields_def gen_AllFields_def comp_def)

lemma funcAllFieldsWithId_literal:
  \<open>funcAllFieldsWithId s =
     [Printlnf (''func (m *'' @ struct_name s @ '') AllFieldsWithId() []string {''),
      Printlnf (TAB @ ''return []string{'')] @
     map (\<lambda>n. Printf (TAB @ TAB @ ''"'' @ n @ ''",'')) (gen_AllFieldsWithId s) @
     [Printlnf (TAB @ ''}''), Printlnf ''}'']\<close>
  by (simp add: funcAllFieldsWithId_def gen_AllFieldsWithId_def comp_def)

text \<open>The \<^verbatim>\<open>NqlValues\<close> emitted for the sample vertex \<^verbatim>\<open>Person\<close>: one branch for each
  declared field, in the order of the declaration, and no branch for any other name.\<close>

lemma funcNqlValues_Person:
  \<open>funcNqlValues (genStruct_stru ''Person'' [tag_field, name_field, age_field]) =
     Inr [Printlnf ''func (m *Person) NqlValues(fields ...string) string {'',
          Printlnf (TAB @ ''var values string''),
          Printlnf (TAB @ ''for _, f := range fields {''),
          Printlnf ''if f == "name" {'',
          Printlnf (''values = values + "," + "'' @ BSL @ ''"" + m.Name + "'' @ BSL @ ''""''),
          Printf ''}'',
          Printf ''else '',
          Printlnf ''if f == "age" {'',
          Printlnf ''values = values + "," + strconv.FormatInt(int64(m.Age), 10)'',
          Printf ''}'',
          Printlnf (NL @ TAB @ ''}''),
          Printlnf (TAB @ ''return values[1:]''),
          Printlnf ''}'']\<close>
  by (simp add: funcNqlValues_def chain_def chain_item_def funcValue_def extract_defs)

text \<open>The banner that \<open>main\<close> prints first carries the marker \<open>addPackage\<close> looks for.\<close>

lemma header_marker: "Contains (fst (hd (header args nm))) ''Code generated by''"
  by (simp add: header_def Contains_def sublist_code)

section \<open>Claims\<close>

subsection \<open>C1: entities without a marker\<close>

text \<open>
  C1, as the code has it. For an entity that embeds neither marker, the methods
  guarded by \<^verbatim>\<open>isTag\<close> or \<^verbatim>\<open>isEdge\<close> (\<^verbatim>\<open>TagName\<close>, \<^verbatim>\<open>EdgeName\<close>, \<^verbatim>\<open>Create\<close>, \<^verbatim>\<open>Insert\<close>,
  \<^verbatim>\<open>RemoveById\<close>) emit nothing and the aggregate \<^verbatim>\<open>Create\<close> has no call for it; the
  twelve methods without a guard (\<^verbatim>\<open>AllFields\<close>, \<^verbatim>\<open>AllFieldsWithId\<close>, \<^verbatim>\<open>NqlNameValues\<close>,
  \<^verbatim>\<open>NqlValues\<close>, \<^verbatim>\<open>NqlNames\<close>, \<^verbatim>\<open>NqlBind\<close>, \<^verbatim>\<open>BindRecord\<close>, \<^verbatim>\<open>BindResult\<close>,
  \<^verbatim>\<open>ConditionItem\<close>, \<^verbatim>\<open>BindOne\<close>, \<^verbatim>\<open>One\<close>, \<^verbatim>\<open>List\<close>) run for it as for any entity.
\<close>

theorem plain_entity_templates:
  assumes "\<not> isTag s" and "\<not> isEdge s"
  shows "funcTagName s = [] \<and> funcEdgeName s = [] \<and> CreateTag s = [] \<and> CreateEdge s = [] \<and>
         funcInsertTag s = [] \<and> funcInsertEdge s = [] \<and> funcRemoveTag s = [] \<and>
         funcRemoveEdge s = [] \<and>
         Create (xs @ s # ys) = Create (xs @ ys) \<and>
         generate_struct s =
           seqE [Inr (funcAllFields s), Inr (funcAllFieldsWithId s), funcNqlNameValues s,
                 funcNqlValues s, Inr (funcNqlNames s), funcNqlBind s, funcBindRecord s,
                 Inr (funcBindResult s), funcConditionItem s, Inr (funcBindOne s),
                 Inr (funcOne s), Inr (funcList s)]"
proof -
  have none: "funcTagName s = []" "funcEdgeName s = []" "CreateTag s = []" "CreateEdge s = []"
    "funcInsertTag s = []" "funcInsertEdge s = []" "funcRemoveTag s = []" "funcRemoveEdge s = []"
    using assms
    by (simp_all add: funcTagName_def funcEdgeName_def CreateTag_def CreateEdge_def
        funcInsertTag_def funcInsertEdge_def funcRemoveTag_def funcRemoveEdge_def)
  have agg: "Create (xs @ s # ys) = Create (xs @ ys)"
    using assms by (simp add: Create_def)
  have "generate_struct s =
           seqE [Inr (funcAllFields s), Inr (funcAllFieldsWithId s), funcNqlNameValues s,
                 funcNqlValues s, Inr (funcNqlNames s), funcNqlBind s, funcBindRecord s,
                 Inr (funcBindResult s), funcConditionItem s, Inr (funcBindOne s),
                 Inr (funcOne s), Inr (funcList s)]"
    unfolding generate_struct_def none
    by (simp split: sum.splits)
  with none agg show ?thesis
    by simp
qed

text \<open>The statement on \<^verbatim>\<open>type Conf struct { Name string }\<close>, declared after a vertex
  \<^verbatim>\<open>Person\<close>.\<close>

theorem plain_entity_templates_witness:
  "\<not> isTag (genStruct_stru ''Conf'' [name_field]) \<and>
   \<not> isEdge (genStruct_stru ''Conf'' [name_field]) \<and>
   CreateTag (genStruct_stru ''Conf'' [name_field]) = [] \<and>
   Create [genStruct_stru ''Person'' [tag_field], genStruct_stru ''Conf'' [name_field]] =
     Create [genStruct_stru ''Person'' [tag_field]]"
  using plain_entity_templates [of "genStruct_stru ''Conf'' [name_field]"
      "[genStruct_stru ''Person'' [tag_field]]" "[]"]
  by (simp add: extract_defs)

text \<open>C1 as stated fails: for \<^verbatim>\<open>type Conf struct { Name string }\<close>, which embeds no
  marker, the emission starts with the \<^verbatim>\<open>AllFields\<close> method of \<^verbatim>\<open>Conf\<close>.\<close>

theorem plain_entity_emitted_counterexample:
  "\<not> isTag (genStruct_stru ''Conf'' [name_field]) \<and>
   \<not> isEdge (genStruct_stru ''Conf'' [name_field]) \<and>
   map_sum id (take 2) (generate_struct (genStruct_stru ''Conf'' [name_field])) =
     Inr [Printlnf ''func (m *Conf) AllFields() []string {'',
          Printlnf (TAB @ ''return []string{'')]"
  by (simp add: generate_struct_def funcAllFields_def funcAllFieldsWithId_def funcTagName_def
      funcEdgeName_def funcNqlNameValues_def funcNqlValues_def funcNqlNames_def funcNqlBind_def
      CreateTag_def CreateEdge_def funcInsertTag_def funcInsertEdge_def funcBindRecord_def
      funcBindResult_def funcConditionItem_def funcBindOne_def funcOne_def funcList_def
      funcRemoveTag_def funcRemoveEdge_def chain_def chain_item_def funcValue_def funcEq_def
      Field_funcBindResult_def IDFIELD_def extract_defs)

subsection \<open>C2: external names\<close>

text \<open>
  C2 at \<^verbatim>\<open>-trimprefix T\<close> and \<^verbatim>\<open>type TUser struct { *base.Tag; TName string }\<close>: the
  configured prefix is carried in the file state and never applied, so the external
  names are \<^verbatim>\<open>tuser\<close> and \<^verbatim>\<open>tname\<close>, the lower-cased declared names, not \<^verbatim>\<open>user\<close> and
  \<^verbatim>\<open>name\<close>.
\<close>

theorem trimPrefix_not_applied:
  "map_sum id (\<lambda>p. map (\<lambda>s. (struct_nickname s, map nickname (struct_fields s))) (structs (fst p)))
     (genStruct \<lparr>file_ast = \<lparr>Comments = [], Root = Node OtherNode []\<rparr>, allowTypeNames = None,
                 structs = [], trimPrefix = ''T'', lineComment = False\<rparr>
        (TypeSpec ''TUser'' (StructType
           [tag_field, \<lparr>Names = [''TName''], Type = Ident ''string'', Tag = None, Comment = []\<rparr>]))) =
   Inr [(''tuser'', [''tname''])]"
  by (simp add: genStruct_def allowTypeName_def len_map_def delete_map_def extract_defs)

subsection \<open>C3: the condition on the identity\<close>

text \<open>
  C3 at a vertex \<^verbatim>\<open>Person\<close> that declares \<^verbatim>\<open>Name string\<close> only: the emitted
  \<^verbatim>\<open>ConditionItem\<close> has the one branch \<^verbatim>\<open>if f == "name"\<close>, so the call
  \<^verbatim>\<open>ConditionItem("id")\<close> appends nothing. With a declared field \<^verbatim>\<open>ID int64\<close> the branch
  for \<^verbatim>\<open>"id"\<close> appends a comparison of the property \<^verbatim>\<open>v.person.id\<close>, since \<open>funcEq\<close> looks
  for the declared name \<^verbatim>\<open>Id\<close>.
\<close>

theorem ConditionItem_id_no_predicate:
  \<open>isTag (genStruct_stru ''Person'' [tag_field, name_field]) \<and>
   funcConditionItem (genStruct_stru ''Person'' [tag_field, name_field]) =
     Inr [Printlnf ''func (m *Person) ConditionItem(fields ...string) []string {'',
          Printlnf ''result := make([]string, 0)'',
          Printlnf (TAB @ ''for _, f := range fields {''),
          Printlnf ''if f == "name" {'',
          Printlnf (''result = append(result,"v.person.name=="+"'' @ BSL @ ''"" + m.Name + "'' @
                    BSL @ ''"")''),
          Printf ''}'',
          Printlnf (NL @ TAB @ ''}''),
          Printlnf ''return result'',
          Printlnf ''}''] \<and>
   gen_ConditionItem (genStruct_stru ''Person'' [tag_field, name_field]) [''id''] = Inr [] \<and>
   gen_ConditionItem (genStruct_stru ''Person'' [tag_field, ID_field]) [''id''] =
     Inr [''"v.person.id=="+strconv.FormatInt(m.ID, 10)'']\<close>
  by (simp add: gen_defs extract_defs funcConditionItem_def chain_def chain_item_def)

subsection \<open>C4: index statements\<close>

lemma CreateTag_index_sublist:
  assumes "isTag s" and "f \<in> set (struct_fields s)" and "isIndex f"
  shows \<open>sublist [Printf (''nql = "CREATE TAG INDEX IF NOT EXISTS idx_'' @ nickname f),
                  Printlnf ('' ON " + m.TagName() + "('' @ otherIndexFields f @ '')"'')]
           (CreateTag s)\<close>
proof -
  let ?two = \<open>[Printf (''nql = "CREATE TAG INDEX IF NOT EXISTS idx_'' @ nickname f),
               Printlnf ('' ON " + m.TagName() + "('' @ otherIndexFields f @ '')"'')]\<close>
  have "prefix ?two (CreateTag_index f)"
    using assms(3) by (simp add: CreateTag_index_def)
  then have "sublist ?two (CreateTag_index f)"
    by (rule prefix_imp_sublist)
  moreover have "sublist (CreateTag_index f) (concat (map CreateTag_index (struct_fields s)))"
    using assms(2) by (rule sublist_concat_map)
  moreover have "sublist (concat (map CreateTag_index (struct_fields s))) (CreateTag s)"
    using assms(1) unfolding CreateTag_def sublist_def
    by (metis append.assoc)
  ultimately show ?thesis
    by (blast intro: sublist_order.order_trans)
qed

text \<open>
  C4, as the code has it. For a vertex entity and a named field of identifier type
  whose tag has the key \<^verbatim>\<open>idx\<close> with value \<open>v\<close>, the emitted \<^verbatim>\<open>Create\<close> builds the
  statement \<^verbatim>\<open>CREATE TAG INDEX IF NOT EXISTS idx_<field> ON <label>(v)\<close>: the value is
  copied between the parentheses as it is, \<^verbatim>\<open>x,y\<close> as well as the empty value, and
  \<^verbatim>\<open>TagName\<close> returns the lower-cased name of the entity as the label.
\<close>

theorem index_statement_target:
  assumes "fld \<in> set fl" and "Type fld = Ident tn" and "n \<in> set (Names fld)"
    and "Tag fld = Some tag" and "map_of tag ''idx'' = Some v"
    and "isTag (genStruct_stru nm fl)"
  shows \<open>sublist [Printf (''nql = "CREATE TAG INDEX IF NOT EXISTS idx_'' @ ToLower n),
                  Printlnf ('' ON " + m.TagName() + "('' @ v @ '')"'')]
           (CreateTag (genStruct_stru nm fl)) \<and>
         funcTagName (genStruct_stru nm fl) =
           [Printlnf (''func (m *'' @ nm @ '') TagName() string {''),
            Printlnf (TAB @ ''return "'' @ ToLower nm @ ''"''),
            Printlnf ''}'']\<close>
proof -
  let ?f = "genStruct_fi fld tn n"
  have "?f \<in> set (decl_fields fld)"
    using assms(2,3) by (simp add: decl_fields_def)
  then have mem: "?f \<in> set (struct_fields (genStruct_stru nm fl))"
    using assms(1) by (auto simp: struct_fields_genStruct_stru)
  have idx: "isIndex ?f" "otherIndexFields ?f = v"
    using index_genStruct_fi [OF assms(4,5)] by simp_all
  have "struct_name (genStruct_stru nm fl) = nm"
    by (simp add: genStruct_stru_def foldl_genStruct_field_names)
  then have tagname: \<open>funcTagName (genStruct_stru nm fl) =
           [Printlnf (''func (m *'' @ nm @ '') TagName() string {''),
            Printlnf (TAB @ ''return "'' @ ToLower nm @ ''"''),
            Printlnf ''}'']\<close>
    using assms(6) by (simp add: funcTagName_def struct_nickname_genStruct_stru)
  show ?thesis
    using CreateTag_index_sublist [OF assms(6) mem idx(1)] tagname
    by (simp add: idx(2) nickname_genStruct_fi)
qed

text \<open>The statement on \<^verbatim>\<open>Person\<close> with \<^verbatim>\<open>Age int32 `idx:"x,y"`\<close>.\<close>

theorem index_statement_target_witness:
  \<open>sublist [Printf ''nql = "CREATE TAG INDEX IF NOT EXISTS idx_age'',
            Printlnf '' ON " + m.TagName() + "(x,y)"'']
     (CreateTag (genStruct_stru ''Person''
        [tag_field, name_field, age_field\<lparr>Tag := Some [(''idx'', ''x,y'')]\<rparr>])) \<and>
   funcTagName (genStruct_stru ''Person''
        [tag_field, name_field, age_field\<lparr>Tag := Some [(''idx'', ''x,y'')]\<rparr>]) =
     [Printlnf ''func (m *Person) TagName() string {'',
      Printlnf (TAB @ ''return "person"''),
      Printlnf ''}'']\<close>
  using index_statement_target [of "age_field\<lparr>Tag := Some [(''idx'', ''x,y'')]\<rparr>"
      "[tag_field, name_field, age_field\<lparr>Tag := Some [(''idx'', ''x,y'')]\<rparr>]"
      "''int32''" "''Age''" "[(''idx'', ''x,y'')]" "''x,y''" "''Person''"]
  by (simp add: extract_defs)

text \<open>C4 as stated fails on \<^verbatim>\<open>Person\<close> with \<^verbatim>\<open>Age int32 `idx:""`\<close>: the statement
  ends in \<^verbatim>\<open>ON <label>()\<close>, and no line of the emitted \<^verbatim>\<open>Create\<close> has \<^verbatim>\<open>(age)\<close>.\<close>

theorem index_empty_target_counterexample:
  \<open>isTag (genStruct_stru ''Person'' [tag_field, name_field, age_field]) \<and>
   Printlnf '' ON " + m.TagName() + "(age)"''
     \<notin> set (CreateTag (genStruct_stru ''Person'' [tag_field, name_field, age_field])) \<and>
   concat (map CreateTag_index
     (struct_fields (genStruct_stru ''Person'' [tag_field, name_field, age_field]))) =
     [Printf ''nql = "CREATE TAG INDEX IF NOT EXISTS idx_age'',
      Printlnf '' ON " + m.TagName() + "()"'',
      Printlnf ''result,_ = session.Execute(nql)'',
      Printlnf ''checkResultSet(nql, result)'']\<close>
  by (simp add: emit_defs extract_defs)

subsection \<open>C5: the field lists\<close>

text \<open>
  C5, as the code has it. For every extracted entity the list that
  \<^verbatim>\<open>AllFieldsWithId\<close> returns is the list that \<^verbatim>\<open>AllFields\<close> returns with \<^verbatim>\<open>id\<close> appended;
  \<^verbatim>\<open>id\<close> occurs in the list of \<^verbatim>\<open>AllFields\<close> exactly when the declaration has a named
  field of identifier type whose lower-cased name is \<^verbatim>\<open>id\<close>.
\<close>

theorem AllFieldsWithId_appends_id:
  "gen_AllFieldsWithId (genStruct_stru nm fl) = gen_AllFields (genStruct_stru nm fl) @ [''id''] \<and>
   (''id'' \<in> set (gen_AllFields (genStruct_stru nm fl)) \<longleftrightarrow>
      (\<exists>fld\<in>set fl. \<exists>tn. Type fld = Ident tn \<and> (\<exists>n\<in>set (Names fld). ToLower n = ''id'')))"
proof -
  have "''id'' \<in> set (gen_AllFields (genStruct_stru nm fl)) \<longleftrightarrow>
          (\<exists>fld\<in>set fl. ''id'' \<in> set (map nickname (decl_fields fld)))"
    by (simp add: gen_AllFields_def struct_fields_genStruct_stru map_concat)
  then have "''id'' \<in> set (gen_AllFields (genStruct_stru nm fl)) \<longleftrightarrow>
      (\<exists>fld\<in>set fl. \<exists>tn. Type fld = Ident tn \<and> (\<exists>n\<in>set (Names fld). ToLower n = ''id''))"
    by (simp only: nickname_in_decl_fields)
  then show ?thesis
    by (simp add: gen_AllFieldsWithId_def gen_AllFields_def)
qed

text \<open>The statement on \<^verbatim>\<open>Person\<close> with \<^verbatim>\<open>Name\<close> and \<^verbatim>\<open>Age\<close>.\<close>

theorem AllFieldsWithId_appends_id_witness:
  "gen_AllFieldsWithId (genStruct_stru ''Person'' [tag_field, name_field, age_field]) =
     [''name'', ''age'', ''id''] \<and>
   ''id'' \<notin> set (gen_AllFields (genStruct_stru ''Person'' [tag_field, name_field, age_field]))"
  using AllFieldsWithId_appends_id [of "''Person''" "[tag_field, name_field, age_field]"]
  by (simp add: gen_AllFields_def extract_defs)

text \<open>C5 as stated fails on the vertex \<^verbatim>\<open>type Person struct { *base.Tag; ID int64 }\<close>:
  \<^verbatim>\<open>id\<close> is in the list of \<^verbatim>\<open>AllFields\<close>.\<close>

theorem AllFields_contains_id_counterexample:
  "isTag (genStruct_stru ''Person'' [tag_field, ID_field]) \<and>
   ''id'' \<in> set (gen_AllFields (genStruct_stru ''Person'' [tag_field, ID_field]))"
  by (simp add: gen_AllFields_def extract_defs)

subsection \<open>C6: the values\<close>

text \<open>
  C6, as the code has it. The generated \<^verbatim>\<open>NqlValues\<close> panics exactly when no
  requested name is the external name of a declared field (so also on no name at all);
  otherwise it returns the literals of the requested names that have a field, in the
  order of the request, joined by commas, and skips the other names. When every
  requested name has a field, the fields taken are those of the request in its order,
  the order in which \<^verbatim>\<open>NqlNames\<close> joins the names.
\<close>

theorem NqlValues_result:
  "gen_NqlValues lit s req =
     (if \<forall>r\<in>set req. r \<notin> nickname ` set (struct_fields s) then Inl SliceBoundsOutOfRange
      else Inr (Join (map lit (List.map_filter (dispatch s) req)) '','')) \<and>
   (set req \<subseteq> nickname ` set (struct_fields s) \<longrightarrow>
      map nickname (List.map_filter (dispatch s) req) = req)"
proof -
  let ?fs = "List.map_filter (dispatch s) req"
  have loop: "gen_NqlValues_loop lit s req = concat (map (\<lambda>f. '','' @ lit f) ?fs)"
    by (simp add: gen_NqlValues_loop_def NqlValues_foldl)
  have empty: "?fs = [] \<longleftrightarrow> (\<forall>r\<in>set req. r \<notin> nickname ` set (struct_fields s))"
    by (simp add: map_filter_Nil dispatch_None)
  have len: "length (concat (map (\<lambda>f. '','' @ lit f) ?fs)) < 1 \<longleftrightarrow> ?fs = []"
    by (cases ?fs) auto
  have first: "gen_NqlValues lit s req =
     (if \<forall>r\<in>set req. r \<notin> nickname ` set (struct_fields s) then Inl SliceBoundsOutOfRange
      else Inr (Join (map lit ?fs) '',''))"
  proof (cases "?fs = []")
    case True
    then show ?thesis
      using empty by (simp add: gen_NqlValues_def loop)
  next
    case False
    then show ?thesis
      using empty len drop_commas [of ?fs lit] by (simp add: gen_NqlValues_def loop)
  qed
  have second: "set req \<subseteq> nickname ` set (struct_fields s) \<Longrightarrow> map nickname ?fs = req"
  proof (induction req)
    case Nil
    then show ?case by (simp add: List.map_filter_simps)
  next
    case (Cons r req)
    then obtain f where "dispatch s r = Some f"
      using dispatch_None [of s r] by auto
    with Cons show ?case
      by (simp add: List.map_filter_simps dispatch_Some_nickname)
  qed
  from first second show ?thesis by blast
qed

text \<open>The statement on \<^verbatim>\<open>Person\<close>, for the names \<^verbatim>\<open>age\<close>, \<^verbatim>\<open>name\<close> and for a name it does
  not declare.\<close>

theorem NqlValues_result_witness:
  \<open>gen_NqlValues sample_lit (genStruct_stru ''Person'' [tag_field, name_field, age_field])
     [''age'', ''name''] = Inr ''30,"Alice"'' \<and>
   gen_NqlValues sample_lit (genStruct_stru ''Person'' [tag_field, name_field, age_field])
     [''nope''] = Inl SliceBoundsOutOfRange\<close>
  using NqlValues_result [of sample_lit "genStruct_stru ''Person'' [tag_field, name_field, age_field]"
      "[''age'', ''name'']"]
    NqlValues_result [of sample_lit "genStruct_stru ''Person'' [tag_field, name_field, age_field]"
      "[''nope'']"]
  by (simp add: gen_defs extract_defs)

text \<open>C6 as stated fails on \<^verbatim>\<open>Person\<close> and the names \<^verbatim>\<open>name\<close>, \<^verbatim>\<open>nope\<close>: the second
  matches no field, and the call returns the literal of \<^verbatim>\<open>Name\<close> with no error.\<close>

theorem NqlValues_mismatch_counterexample:
  \<open>''nope'' \<notin> nickname `
     set (struct_fields (genStruct_stru ''Person'' [tag_field, name_field, age_field])) \<and>
   gen_NqlValues sample_lit (genStruct_stru ''Person'' [tag_field, name_field, age_field])
     [''name'', ''nope''] = Inr ''"Alice"''\<close>
  by (simp add: gen_defs extract_defs)

subsection \<open>C7: entities with the same external name\<close>

text \<open>
  C7, as the code has it. Nothing compares external names: \<open>genStruct\<close> appends the
  struct of every allowed struct declaration to those extracted before, whatever their
  names, and emission panics exactly when some extracted entity has a field whose type
  is not supported, so two entities with one external name are both emitted.
\<close>

theorem name_collisions_unchecked:
  "(allowTypeName f nm \<longrightarrow>
      (\<exists>f' b. genStruct f (TypeSpec nm (StructType fl)) = Inr (f', b) \<and>
         structs f' = structs f @ [genStruct_stru nm fl])) \<and>
   (isl (generate_emit ss) \<longleftrightarrow>
      (\<exists>s\<in>set ss. \<exists>fd\<in>set (struct_fields s). typeStr fd \<notin> set supported))"
proof -
  have "allowTypeName f nm \<Longrightarrow>
      (\<exists>f' b. genStruct f (TypeSpec nm (StructType fl)) = Inr (f', b) \<and>
         structs f' = structs f @ [genStruct_stru nm fl])"
    by (auto simp: genStruct_def Let_def)
  then show ?thesis
    using generate_emit_isl by blast
qed

text \<open>The statement on \<^verbatim>\<open>USER\<close>, declared after \<^verbatim>\<open>User\<close>.\<close>

theorem name_collisions_unchecked_witness:
  "allowTypeName \<lparr>file_ast = users_file, allowTypeNames = None,
       structs = [genStruct_stru ''User'' [tag_field, name_field]], trimPrefix = [],
       lineComment = False\<rparr> ''USER'' \<and>
   (\<exists>f' b. genStruct \<lparr>file_ast = users_file, allowTypeNames = None,
       structs = [genStruct_stru ''User'' [tag_field, name_field]], trimPrefix = [],
       lineComment = False\<rparr> (TypeSpec ''USER'' (StructType [tag_field, name_field])) =
       Inr (f', b) \<and>
     map struct_nickname (structs f') = [''user'', ''user'']) \<and>
   \<not> isl (generate_emit [genStruct_stru ''User'' [tag_field, name_field],
                           genStruct_stru ''USER'' [tag_field, name_field]])"
  using name_collisions_unchecked [of "\<lparr>file_ast = users_file, allowTypeNames = None,
       structs = [genStruct_stru ''User'' [tag_field, name_field]], trimPrefix = [],
       lineComment = False\<rparr>" "''USER''" "[tag_field, name_field]"
       "[genStruct_stru ''User'' [tag_field, name_field],
         genStruct_stru ''USER'' [tag_field, name_field]]"]
  by (auto simp: allowTypeName_def extract_defs supported_def)

text \<open>C7 as stated fails on a file that declares the vertices \<^verbatim>\<open>User\<close> and \<^verbatim>\<open>USER\<close>:
  both are extracted with the external name \<^verbatim>\<open>user\<close>, and the run ends with the call
  that writes the output.\<close>

theorem name_collision_no_error_counterexample:
  "map_sum id (\<lambda>g. map (\<lambda>s. (isTag s, struct_nickname s)) (Structs g))
     (generate_files (main_types sample_flags)
        (files (pkg (main_init sample_flags [] ''model'' [users_file])))
        (main_init sample_flags [] ''model'' [users_file])) =
     Inr [(True, ''user''), (True, ''user'')] \<and>
   \<not> isl (main sample_extern sample_flags [] ''.'' ''model'' [users_file])"
proof -
  have "\<not> isl (main sample_extern sample_flags [] ''.'' ''model'' [users_file])"
    unfolding main_isl [OF scan_users_file] by (simp add: extract_defs supported_def)
  then show ?thesis
    unfolding scan_users_file by (simp add: extract_defs)
qed

subsection \<open>C8: unsupported field types\<close>

text \<open>
  C8, as the code has it. The fields of an extracted entity are those \<open>genStruct\<close>
  builds: one for each name of a declared field whose type is a plain identifier. When
  one of the entities extracted by the scan has such a field and its type is not one of
  \<^verbatim>\<open>string\<close>, \<^verbatim>\<open>int\<close>, \<^verbatim>\<open>int8\<close>, \<^verbatim>\<open>int16\<close>, \<^verbatim>\<open>int32\<close>, \<^verbatim>\<open>int64\<close>, \<^verbatim>\<open>float32\<close>, \<^verbatim>\<open>float64\<close>
  (for example \<^verbatim>\<open>bool\<close>), the run ends in a panic: \<open>main\<close> never reaches the call that
  writes the output file. The field that ends the run is always a named field declared
  with an identifier as its type, and after the scan the run ends in a panic for no
  other reason than an extracted field of such a type.
\<close>

theorem unsupported_type_aborts:
  assumes "generate_files (main_types fl) (files (pkg (main_init fl args nm syntax)))
             (main_init fl args nm syntax) = Inr g"
    and "s \<in> set (Structs g)" and "f \<in> set (struct_fields s)"
    and "typeStr f \<notin> set supported"
  shows "(\<exists>e. main E fl args dir nm syntax = Inl e) \<and>
         (\<forall>snm decl. s = genStruct_stru snm decl \<longrightarrow>
            (\<exists>fld\<in>set decl. \<exists>tn. Type fld = Ident tn \<and> tn \<notin> set supported \<and>
               name f \<in> set (Names fld))) \<and>
         (\<forall>E' dir'. isl (main E' fl args dir' nm syntax) \<longrightarrow>
            (\<exists>s'\<in>set (Structs g). \<exists>f'\<in>set (struct_fields s'). typeStr f' \<notin> set supported))"
proof -
  have "isl (generate_emit (Structs g))"
    using assms(2-4) generate_emit_isl by blast
  then obtain e where "generate_emit (Structs g) = Inl e"
    by (auto simp: isl_def)
  with assms(1) have abort: "\<exists>e. main E fl args dir nm syntax = Inl e"
    by (simp add: main_def generate_def)
  have decl: "\<exists>fld\<in>set decl. \<exists>tn. Type fld = Ident tn \<and> tn \<notin> set supported \<and>
          name f \<in> set (Names fld)"
    if "s = genStruct_stru snm decl" for snm decl
    using struct_field_declared [of f snm decl] assms(3,4) that by auto
  have only: "\<exists>s'\<in>set (Structs g). \<exists>f'\<in>set (struct_fields s'). typeStr f' \<notin> set supported"
    if "isl (main E' fl args dir' nm syntax)" for E' dir'
    using that main_isl [OF assms(1), of E' dir'] by simp
  from abort decl only show ?thesis
    by blast
qed

text \<open>The statement on \<^verbatim>\<open>type Flag struct { *base.Tag; On bool }\<close>.\<close>

theorem unsupported_type_aborts_witness:
  "''bool'' \<notin> set supported \<and>
   (\<exists>e. main sample_extern sample_flags [] ''.'' ''model'' [flag_file] = Inl e) \<and>
   (\<exists>fld\<in>set [tag_field, on_field]. \<exists>tn. Type fld = Ident tn \<and> tn \<notin> set supported \<and>
      ''On'' \<in> set (Names fld))"
proof -
  let ?s = "genStruct_stru ''Flag'' [tag_field, on_field]"
  let ?f = "genStruct_fi on_field ''bool'' ''On''"
  have s: "?s \<in> set (Structs ((main_init sample_flags [] ''model'' [flag_file])
                                \<lparr>Structs := [?s]\<rparr>))"
    by simp
  have f: "?f \<in> set (struct_fields ?s)"
    by (simp add: extract_defs)
  have t: "typeStr ?f \<notin> set supported"
    by (simp add: extract_defs supported_def)
  have n: "name ?f = ''On''"
    by (simp add: extract_defs)
  have b: "''bool'' \<notin> set supported"
    by (simp add: supported_def)
  note th = unsupported_type_aborts [OF scan_flag_file s f t, of sample_extern "''.''"]
  from th have abort: "\<exists>e. main sample_extern sample_flags [] ''.'' ''model'' [flag_file] = Inl e"
    by blast
  from th have "\<exists>fld\<in>set [tag_field, on_field]. \<exists>tn. Type fld = Ident tn \<and>
      tn \<notin> set supported \<and> name ?f \<in> set (Names fld)"
    by blast
  with n abort b show ?thesis
    by simp
qed

text \<open>C8 as stated fails on the vertex
  \<^verbatim>\<open>type Event struct { *base.Tag; Name string; At time.Time; Tags []string; Done *bool; bool }\<close>:
  it declares fields whose types are outside the eight, none of them is extracted (the
  entity has the one field \<^verbatim>\<open>Name\<close>), and the run ends with the call that writes the
  output.\<close>

theorem non_identifier_field_counterexample:
  "Type at_field = SelectorExpr (Ident ''time'') ''Time'' \<and>
   Type done_field = StarExpr (Ident ''bool'') \<and>
   map_sum id (\<lambda>g. map (\<lambda>s. (struct_name s, map name (struct_fields s))) (Structs g))
     (generate_files (main_types sample_flags)
        (files (pkg (main_init sample_flags [] ''model'' [event_file])))
        (main_init sample_flags [] ''model'' [event_file])) =
     Inr [(''Event'', [''Name''])] \<and>
   \<not> isl (main sample_extern sample_flags [] ''.'' ''model'' [event_file])"
proof -
  have "\<not> isl (main sample_extern sample_flags [] ''.'' ''model'' [event_file])"
    unfolding main_isl [OF scan_event_file] by (simp add: extract_defs supported_def)
  then show ?thesis
    unfolding scan_event_file by (simp add: extract_defs)
qed

subsection \<open>C9: a formatter that fails\<close>

text \<open>
  C9. When generation has filled the buffer and \<^verbatim>\<open>format.Source\<close> returns an error
  on its bytes, the run does not end there: it logs the two warnings and calls
  \<^verbatim>\<open>ioutil.WriteFile\<close> with exactly the bytes of the buffer.
\<close>

theorem format_failure_writes_raw:
  assumes "generate (main_init fl args nm syntax) (main_types fl) = Inr g"
    and "format_Source E (Bytes E (buf g)) = Inl err"
  shows "main E fl args dir nm syntax =
           Inr \<lparr>log = [(''warning: internal error: invalid Go generated: %s'', [err]),
                        (''warning: compile the package to analyze the error'', [])],
                outputName = (if outputFlag fl = [] then
                                filepath_Join E dir (ToLower ''ngorm_generate.go'')
                              else outputFlag fl),
                src = Bytes E (buf g)\<rparr>"
  using assms by (simp add: main_def format_def)

text \<open>The statement on the file declaring \<^verbatim>\<open>Person\<close>, with a source formatter that
  rejects its input.\<close>

theorem format_failure_writes_raw_witness:
  "\<exists>g. generate (main_init sample_flags [] ''model'' [person_file]) (main_types sample_flags) =
          Inr g \<and>
     main failing_extern sample_flags [] ''.'' ''model'' [person_file] =
       Inr \<lparr>log = [(''warning: internal error: invalid Go generated: %s'',
                     [''expected declaration'']),
                    (''warning: compile the package to analyze the error'', [])],
            outputName = ''./ngorm_generate.go'',
            src = Bytes failing_extern (buf g)\<rparr>"
proof -
  let ?s = "genStruct_stru ''Person'' [tag_field, name_field, age_field]"
  have "\<not> isl (generate_emit [?s])"
    unfolding generate_emit_isl by (simp add: extract_defs supported_def)
  then obtain cs where "generate_emit [?s] = Inr cs"
    by (cases "generate_emit [?s]") auto
  with scan_person_file obtain g where
    g: "generate (main_init sample_flags [] ''model'' [person_file]) (main_types sample_flags) =
          Inr g"
    by (simp add: generate_def)
  have fail: "format_Source failing_extern (Bytes failing_extern (buf g)) =
                Inl ''expected declaration''"
    by (simp add: failing_extern_def)
  show ?thesis
    using format_failure_writes_raw [OF g fail, of "''.''"] g
    by (simp add: sample_flags_def failing_extern_def sample_extern_def ToLower_def
        toLower_char_def)
qed

subsection \<open>C10: files of generated code\<close>

lemma addPackage_file_generated: "generated_file a \<Longrightarrow> addPackage_file g a = g"
  by (simp add: addPackage_file_def)

lemma addPackage_generated:
  "generated_file a \<Longrightarrow> addPackage g nm (xs @ a # ys) = addPackage g nm (xs @ ys)"
  by (simp add: addPackage_def addPackage_file_generated)

text \<open>
  C10. A file whose first comment group contains \<^verbatim>\<open>Code generated by\<close> takes no part
  in the run: whatever it declares, whatever the flags, the run over a package with the
  file is the run over the package without it.
\<close>

theorem generated_file_excluded:
  assumes "Comments a = c # cs" and "Contains c ''Code generated by''"
  shows "main E fl args dir nm (xs @ a # ys) = main E fl args dir nm (xs @ ys)"
proof -
  have "generated_file a"
    using assms by (simp add: generated_file_def)
  then have "main_init fl args nm (xs @ a # ys) = main_init fl args nm (xs @ ys)"
    by (simp add: main_init_def addPackage_generated)
  then show ?thesis
    by (simp add: main_def)
qed

text \<open>The statement on a file of generated code put before the file declaring
  \<^verbatim>\<open>Person\<close>.\<close>

theorem generated_file_excluded_witness:
  \<open>Contains (''Code generated by "ngormgen"; DO NOT EDIT.'' @ NL) ''Code generated by'' \<and>
   main sample_extern sample_flags [] ''.'' ''model'' [generated_sample, person_file] =
   main sample_extern sample_flags [] ''.'' ''model'' [person_file]\<close>
proof -
  have c: \<open>Comments generated_sample =
             (''Code generated by "ngormgen"; DO NOT EDIT.'' @ NL) # []\<close>
    by (simp add: generated_sample_def)
  have m: \<open>Contains (''Code generated by "ngormgen"; DO NOT EDIT.'' @ NL) ''Code generated by''\<close>
    by (simp add: Contains_def sublist_code)
  show ?thesis
    using generated_file_excluded [OF c m, of sample_extern sample_flags "[]" "''.''" "''model''"
        "[]" "[person_file]"] m
    by simp
qed

end
